theory Spec2Isabelle
  imports Complex_Main "HOL-Library.Word"
begin

section \<open>Constants of command\_logic.cpp\<close>

definition RES :: nat where "RES = 40"
definition NZ :: nat where "NZ = 5"
definition HSIZE :: int where "HSIZE = 400"
definition VSIZE :: int where "VSIZE = 400"

section \<open>Values of type double\<close>

text \<open>
  A C++ \<^verbatim>\<open>double\<close> is an IEEE 754 binary64 value: a finite number, a zero of either sign,
  one of the two infinities, or NaN. \<open>Fin r\<close> is the finite double of value \<open>r\<close> (\<open>Fin 0\<close> is
  \<^verbatim>\<open>+0.0\<close>) and \<open>NegZero\<close> is \<^verbatim>\<open>-0.0\<close>. The type has a value \<open>Fin r\<close> for every real \<open>r\<close>;
  the doubles are those whose \<open>r\<close> is representable, and the operations below return such
  values.
\<close>

datatype double = Fin real | NegZero | PInf | NInf | NaN

definition double_of_int :: "int \<Rightarrow> double" where
  "double_of_int i = Fin (of_int i)"

fun val :: "double \<Rightarrow> real" where
  "val (Fin r) = r"
| "val NegZero = 0"
| "val PInf = 0"
| "val NInf = 0"
| "val NaN = 0"

fun isfinite :: "double \<Rightarrow> bool" where
  "isfinite (Fin r) = True"
| "isfinite NegZero = True"
| "isfinite PInf = False"
| "isfinite NInf = False"
| "isfinite NaN = False"

definition is_zero :: "double \<Rightarrow> bool" where
  "is_zero a = (a = Fin 0 \<or> a = NegZero)"

definition is_inf :: "double \<Rightarrow> bool" where
  "is_inf a = (a = PInf \<or> a = NInf)"

text \<open>The sign bit of a double that is not NaN.\<close>

fun sign_bit :: "double \<Rightarrow> bool" where
  "sign_bit (Fin r) = (r < 0)"
| "sign_bit NegZero = True"
| "sign_bit PInf = False"
| "sign_bit NInf = True"
| "sign_bit NaN = False"

text \<open>
  The operators \<^verbatim>\<open><\<close> and \<^verbatim>\<open>>\<close> on doubles: false when an operand is NaN; the two zeros
  compare equal.
\<close>

definition dless :: "double \<Rightarrow> double \<Rightarrow> bool" where
  "dless a b =
     (if a = NaN \<or> b = NaN then False
      else if isfinite a \<and> isfinite b then val a < val b
      else (a = NInf \<and> b \<noteq> NInf) \<or> (b = PInf \<and> a \<noteq> PInf))"

definition dgreater :: "double \<Rightarrow> double \<Rightarrow> bool" where
  "dgreater a b = dless b a"

subsection \<open>Rounding\<close>

text \<open>
  Round to nearest, ties to even, the rounding of IEEE 754 arithmetic in its default mode.
  A real \<open>r \<noteq> 0\<close> with \<open>2\<^sup>k \<le> |r| < 2\<^sup>k\<^sup>+\<^sup>1\<close> lies between doubles that are multiples of
  \<open>2\<^sup>e\<close>, where \<open>e = max k (-1022) - 52\<close> (53 significant bits; below \<open>2\<^sup>-\<^sup>1\<^sup>0\<^sup>2\<^sup>2\<close> the
  subnormal spacing \<open>2\<^sup>-\<^sup>1\<^sup>0\<^sup>7\<^sup>4\<close>). \<open>r\<close> is rounded to the nearest multiple, to the even one
  when it is halfway; a result of magnitude \<open>2\<^sup>1\<^sup>0\<^sup>2\<^sup>4\<close> or more is the infinity of the sign
  of \<open>r\<close>, and a result zero is the zero of the sign of \<open>r\<close>. The operations apply it to
  the exact result of two finite operands when that is not zero.
\<close>

definition pow2 :: "int \<Rightarrow> real" where
  "pow2 e = (if 0 \<le> e then 2 ^ nat e else 1 / 2 ^ nat (- e))"

definition round_half_even :: "real \<Rightarrow> int" where
  "round_half_even t =
     (let f = \<lfloor>t\<rfloor>
      in if t - of_int f < 1 / 2 then f
         else if 1 / 2 < t - of_int f then f + 1
         else if even f then f else f + 1)"

definition round_double :: "real \<Rightarrow> double" where
  "round_double r =
     (let e = max \<lfloor>log 2 \<bar>r\<bar>\<rfloor> (- 1022) - 52;
          v = of_int (round_half_even (r / pow2 e)) * pow2 e
      in if 2 ^ 1024 \<le> \<bar>v\<bar> then (if r < 0 then NInf else PInf)
         else if v = 0 then (if r < 0 then NegZero else Fin 0)
         else Fin v)"

subsection \<open>Arithmetic\<close>

text \<open>
  The operator \<^verbatim>\<open>*\<close> on doubles (IEEE 754 multiplication): NaN when an operand is NaN or
  when a zero meets an infinity; otherwise the sign is the exclusive or of the signs, an
  infinite operand gives an infinity, a zero operand a zero, and two finite operands
  other than zero give their exact product, rounded.
\<close>

definition dmul :: "double \<Rightarrow> double \<Rightarrow> double" where
  "dmul a b =
     (if a = NaN \<or> b = NaN then NaN
      else if is_inf a \<or> is_inf b then
        (if is_zero a \<or> is_zero b then NaN
         else if sign_bit a = sign_bit b then PInf else NInf)
      else if is_zero a \<or> is_zero b then
        (if sign_bit a = sign_bit b then Fin 0 else NegZero)
      else round_double (val a * val b))"

text \<open>
  The binary operator \<^verbatim>\<open>-\<close> on doubles (IEEE 754 subtraction): NaN when an operand is
  NaN or when both are the same infinity; an infinite operand otherwise decides the
  result; two finite operands of equal value give \<^verbatim>\<open>+0.0\<close>, except
  \<^verbatim>\<open>(-0.0) - (+0.0) = -0.0\<close>; otherwise the exact difference, rounded.
\<close>

definition dsub :: "double \<Rightarrow> double \<Rightarrow> double" where
  "dsub a b =
     (if a = NaN \<or> b = NaN then NaN
      else if is_inf a then (if a = b then NaN else a)
      else if is_inf b then (if b = PInf then NInf else PInf)
      else if val a = val b then (if a = NegZero \<and> b = Fin 0 then NegZero else Fin 0)
      else round_double (val a - val b))"

subsection \<open>The C math library\<close>

text \<open>
  \<^verbatim>\<open>sin\<close>, \<^verbatim>\<open>cos\<close> and \<^verbatim>\<open>atan2\<close> of \<^verbatim>\<open><cmath>\<close> are not part of the program, and the accuracy
  of their results is the library's. The library is a parameter of the model: three
  functions on doubles, with nothing assumed about what they return. Annex F of the C
  standard fixes the results that are NaN or a zero; these cases are written out, and the
  library is asked in all others.
\<close>

record libm =
  m_sin :: "double \<Rightarrow> double"
  m_cos :: "double \<Rightarrow> double"
  m_atan2 :: "double \<Rightarrow> double \<Rightarrow> double"

text \<open>
  \<^verbatim>\<open>sin\<close>: NaN at NaN and at an infinity, \<open>\<plusminus>0\<close> at \<open>\<plusminus>0\<close>. \<^verbatim>\<open>cos\<close>: NaN at NaN and at
  an infinity, 1 at \<open>\<plusminus>0\<close>.
\<close>

definition dsin :: "libm \<Rightarrow> double \<Rightarrow> double" where
  "dsin lm a =
     (if a = NaN \<or> is_inf a then NaN
      else if is_zero a then a
      else m_sin lm a)"

definition dcos :: "libm \<Rightarrow> double \<Rightarrow> double" where
  "dcos lm a =
     (if a = NaN \<or> is_inf a then NaN
      else if is_zero a then Fin 1
      else m_cos lm a)"

text \<open>
  \<^verbatim>\<open>atan2(y, x)\<close>: NaN when an argument is NaN; \<open>\<plusminus>0\<close> for \<open>y = \<plusminus>0\<close> and \<open>x\<close> either \<^verbatim>\<open>+0.0\<close>
  or greater than zero; \<open>\<plusminus>0\<close>, of the sign of \<open>y\<close>, for a finite \<open>y\<close> and \<open>x = +\<infinity>\<close>.
\<close>

definition datan2 :: "libm \<Rightarrow> double \<Rightarrow> double \<Rightarrow> double" where
  "datan2 lm y x =
     (if y = NaN \<or> x = NaN then NaN
      else if is_zero y \<and> (x = Fin 0 \<or> x = PInf \<or> (isfinite x \<and> 0 < val x)) then y
      else if isfinite y \<and> x = PInf then (if sign_bit y then NegZero else Fin 0)
      else m_atan2 lm y x)"

section \<open>Messages\<close>

text \<open>geometry\_msgs: Pose2D, Vector3 (and Point), Quaternion, Pose.\<close>

record Pose2D =
  px :: double
  py :: double
  theta :: double

record Vector3 =
  vx :: double
  vy :: double
  vz :: double

record Quaternion =
  qx :: double
  qy :: double
  qz :: double
  qw :: double

record Pose =
  position :: Vector3
  orientation :: Quaternion

text \<open>rrtstar\_msgs::Region and the request of rrtstar\_msgs::rrtStarSRV.\<close>

record Region =
  center_x :: double
  center_y :: double
  center_z :: double
  size_x :: double
  size_y :: double
  size_z :: double

record rrtStarSRV_request =
  WS :: Region
  Obstacles :: "Region list"
  Goal :: Region
  Init :: Vector3

text \<open>
  What the node publishes: a trajectory on \<^verbatim>\<open>path\<close>, the flag on \<^verbatim>\<open>enable\<close>, and the turn
  command on \<^verbatim>\<open>/miro/rob01/platform/control\<close> (the field \<^verbatim>\<open>body_move.theta\<close> of
  \<^verbatim>\<open>cmd_turn\<close>, the only field the node ever writes).
\<close>

datatype publish = PathPub "Vector3 list" | FlagPub bool | MiroPub double

text \<open>What a subscription delivers, one constructor per callback.\<close>

datatype delivery =
    CmdMsg "8 word"
  | RobotMsg Pose2D
  | GestureMsg Pose
  | ObstacleMsg Pose2D

section \<open>The state of the node\<close>

text \<open>
  The globals (\<^verbatim>\<open>cmd\<close>, \<^verbatim>\<open>obs\<close>, \<^verbatim>\<open>robot\<close>, \<^verbatim>\<open>gesture\<close>) and the locals of \<^verbatim>\<open>main\<close> that
  live across iterations of the loop. \<^verbatim>\<open>srv_pert_matrices\<close>, \<^verbatim>\<open>srv_mont_landscape\<close> and
  \<^verbatim>\<open>srv_rrts\<close> are the request members of the service handlers that persist between
  calls. Three fields are ghosts, written and never read by the program: \<open>pubs\<close> lists the
  messages published so far, in order; \<open>rrts_calls\<close> lists the requests sent to the RRT*
  service; \<open>trace\<close> lists the values assigned to \<^verbatim>\<open>state\<close> in the current "look"
  activation.
\<close>

record mstate =
  cmd :: "8 word"
  obs :: Pose2D
  robot :: Pose2D
  gesture :: Pose
  target :: Pose2D
  goal :: Pose2D
  rrtPath :: "Vector3 list"
  matrices :: "double list"
  landscape :: "double list"
  enable :: bool
  cmd_turn :: double
  state :: int
  srv_pert_matrices :: "double list"
  srv_mont_landscape :: "double list"
  srv_rrts :: rrtStarSRV_request
  pubs :: "publish list"
  rrts_calls :: "rrtStarSRV_request list"
  trace :: "int list"

section \<open>Subscriber callbacks\<close>

definition getCmd :: "8 word \<Rightarrow> mstate \<Rightarrow> mstate" where
  "getCmd msg s = s\<lparr>cmd := msg\<rparr>"

definition getRobotPose :: "Pose2D \<Rightarrow> mstate \<Rightarrow> mstate" where
  "getRobotPose groundpose s =
     s\<lparr>robot := \<lparr>px = dmul (double_of_int 100) (px groundpose),
                  py = dmul (double_of_int 100) (py groundpose),
                  theta = theta groundpose\<rparr>\<rparr>"

definition getGesture :: "Pose \<Rightarrow> mstate \<Rightarrow> mstate" where
  "getGesture pose s =
     s\<lparr>gesture :=
         \<lparr>position =
            \<lparr>vx = dmul (double_of_int 100) (vx (position pose)),
             vy = dmul (double_of_int 100) (vy (position pose)),
             vz = dmul (double_of_int 100) (vz (position pose))\<rparr>,
          orientation = orientation pose\<rparr>\<rparr>"

definition getObstaclePose :: "Pose2D \<Rightarrow> mstate \<Rightarrow> mstate" where
  "getObstaclePose groundpose s =
     s\<lparr>obs := \<lparr>px = dmul (double_of_int 100) (px groundpose),
                py = dmul (double_of_int 100) (py groundpose),
                theta = theta groundpose\<rparr>\<rparr>"

text \<open>
  \<^verbatim>\<open>ros::spinOnce()\<close>: the pending deliveries run their callbacks, in order of arrival.
\<close>

fun deliver :: "delivery \<Rightarrow> mstate \<Rightarrow> mstate" where
  "deliver (CmdMsg m) s = getCmd m s"
| "deliver (RobotMsg p) s = getRobotPose p s"
| "deliver (GestureMsg p) s = getGesture p s"
| "deliver (ObstacleMsg p) s = getObstaclePose p s"

fun spinOnce :: "delivery list \<Rightarrow> mstate \<Rightarrow> mstate" where
  "spinOnce [] s = s"
| "spinOnce (d # ds) s = spinOnce ds (deliver d s)"

section \<open>Remote services\<close>

text \<open>
  The five service clients. A call takes the request and either fails (\<open>None\<close>:
  \<^verbatim>\<open>call\<close> returns false) or returns the response. The services are not part of the node,
  so they are parameters of the model; they may differ from one iteration of the loop to
  the next.
\<close>

record services =
  spatial_reasoner :: "Pose2D \<times> double list \<Rightarrow> double list option"
  gesture_processing :: "Pose \<Rightarrow> Pose2D option"
  pertinence_mapper :: "Pose2D \<times> double list \<Rightarrow> double list option"
  monte_carlo :: "Pose2D \<times> double list \<Rightarrow> Pose2D option"
  rrtStarService :: "rrtStarSRV_request \<Rightarrow> Vector3 list option"

text \<open>
  A block of \<^verbatim>\<open>main\<close> falls through to the next statement (\<open>Continue\<close>), returns from
  \<^verbatim>\<open>main\<close> with an exit status (\<open>Exit\<close>), or indexes a response vector past its end
  (\<open>Undefined_Behaviour\<close>: \<^verbatim>\<open>operator[]\<close> of \<^verbatim>\<open>std::vector\<close> is unchecked).
\<close>

datatype outcome = Continue mstate | Exit int mstate | Undefined_Behaviour

fun andthen :: "outcome \<Rightarrow> (mstate \<Rightarrow> outcome) \<Rightarrow> outcome" where
  "andthen (Continue s) f = f s"
| "andthen (Exit c s) f = Exit c s"
| "andthen Undefined_Behaviour f = Undefined_Behaviour"

section \<open>The "look" pipeline (lines 259 to 433)\<close>

text \<open>An assignment to \<^verbatim>\<open>state\<close>, recorded in the ghost trace.\<close>

definition set_state :: "int \<Rightarrow> mstate \<Rightarrow> mstate" where
  "set_state k s = s\<lparr>state := k, trace := trace s @ [k]\<rparr>"

text \<open>
  The bound condition of lines 282-283 and 349-350. \<^verbatim>\<open>-HSIZE/2\<close> expands to the integer
  expression \<^verbatim>\<open>-400/2\<close>, converted to double for the comparison.
\<close>

definition out_of_bounds :: "Pose2D \<Rightarrow> bool" where
  "out_of_bounds p =
     (dless (px p) (double_of_int ((- HSIZE) div 2))
      \<or> dgreater (px p) (double_of_int (HSIZE div 2))
      \<or> dless (py p) (double_of_int ((- VSIZE) div 2))
      \<or> dgreater (py p) (double_of_int (VSIZE div 2)))"

text \<open>Line 261: the activation starts with \<^verbatim>\<open>state = 0\<close> (and an empty ghost trace).\<close>

definition begin_look :: "mstate \<Rightarrow> mstate" where
  "begin_look s = set_state 0 (s\<lparr>trace := []\<rparr>)"

text \<open>Lines 263 to 293: gesture processing and the check of the target.\<close>

definition stage_gesture :: "services \<Rightarrow> mstate \<Rightarrow> outcome" where
  "stage_gesture sv s =
     (case gesture_processing sv (gesture s) of
        None \<Rightarrow> Exit 1 s
      | Some t \<Rightarrow>
          let s1 = s\<lparr>target := t\<rparr>;
              s2 = (if isfinite (px (target s1)) \<and> isfinite (py (target s1))
                    then set_state 1 s1 else s1);
              s3 = (if out_of_bounds (target s2) then set_state 0 s2 else s2)
          in Continue s3)"

text \<open>
  Lines 295 to 335: pertinence mapping. The request's vector receives the
  \<^verbatim>\<open>RES*RES*NZ\<close> cached scalars, the first \<^verbatim>\<open>RES*RES\<close> scalars of the response are copied
  to \<^verbatim>\<open>landscape\<close>, and \<^verbatim>\<open>landscape[0]\<close> is tested. The OpenCV plot is not modelled.
\<close>

definition stage_pert :: "services \<Rightarrow> mstate \<Rightarrow> outcome" where
  "stage_pert sv s =
     (if state s = 1 then
        let s1 = s\<lparr>srv_pert_matrices :=
                     srv_pert_matrices s @ take (RES * RES * NZ) (matrices s)\<rparr>
        in case pertinence_mapper sv (target s1, srv_pert_matrices s1) of
             None \<Rightarrow> Exit 1 s1
           | Some ls \<Rightarrow>
               if length ls < RES * RES then Undefined_Behaviour
               else
                 let s2 = s1\<lparr>landscape := take (RES * RES) ls\<rparr>;
                     s3 = (if \<not> isfinite (landscape s2 ! 0) then set_state 0 s2
                           else set_state 2 s2)
                 in Continue (s3\<lparr>srv_pert_matrices := []\<rparr>)
      else Continue s)"

text \<open>Lines 337 to 368: Monte Carlo simulation and the check of the goal.\<close>

definition stage_mont :: "services \<Rightarrow> mstate \<Rightarrow> outcome" where
  "stage_mont sv s =
     (if state s = 2 then
        let s1 = s\<lparr>srv_mont_landscape :=
                     srv_mont_landscape s @ take (RES * RES) (landscape s)\<rparr>
        in case monte_carlo sv (target s1, srv_mont_landscape s1) of
             None \<Rightarrow> Exit 1 s1
           | Some g \<Rightarrow>
               let s2 = s1\<lparr>goal := g\<rparr>;
                   s3 = (if out_of_bounds (goal s2) then set_state 0 s2
                         else set_state 3 s2)
               in Continue (s3\<lparr>srv_mont_landscape := []\<rparr>)
      else Continue s)"

text \<open>
  Lines 375 to 390: the RRT* request. The initial position is the robot's, the goal region
  is the 20 by 20 box at the goal; the workspace and the obstacles are the request's own.
\<close>

definition rrts_request :: "mstate \<Rightarrow> rrtStarSRV_request" where
  "rrts_request s =
     (let init = \<lparr>vx = px (robot s), vy = py (robot s), vz = double_of_int 0\<rparr>;
          goal_reg = \<lparr>center_x = px (goal s), center_y = py (goal s),
                      center_z = double_of_int 0, size_x = double_of_int 20,
                      size_y = double_of_int 20, size_z = double_of_int 0\<rparr>
      in (srv_rrts s)\<lparr>Goal := goal_reg, Init := init\<rparr>)"

text \<open>Lines 370 to 417: the call of the RRT* service and the publication of the path.\<close>

definition stage_rrts :: "services \<Rightarrow> mstate \<Rightarrow> outcome" where
  "stage_rrts sv s =
     (if state s = 3 then
        let s1 = s\<lparr>srv_rrts := rrts_request s\<rparr>;
            s2 = s1\<lparr>rrts_calls := rrts_calls s1 @ [srv_rrts s1]\<rparr>
        in case rrtStarService sv (srv_rrts s2) of
             None \<Rightarrow> Exit 1 s2
           | Some path \<Rightarrow>
               let s3 = s2\<lparr>rrtPath :=
                            map (\<lambda>p. \<lparr>vx = vx p, vy = vy p, vz = vz p\<rparr>) path\<rparr>;
                   s4 = s3\<lparr>pubs := pubs s3 @ [PathPub (rrtPath s3)]\<rparr>
               in Continue (set_state 4 s4)
      else Continue s)"

text \<open>Lines 424 to 426: the two assignments to \<^verbatim>\<open>dtheta\<close>.\<close>

definition turn_angle :: "libm \<Rightarrow> Pose2D \<Rightarrow> Pose2D \<Rightarrow> double" where
  "turn_angle lm g r =
     (let dtheta = dsub (datan2 lm (dsub (py g) (py r)) (dsub (px g) (px r))) (theta r)
      in datan2 lm (dsin lm dtheta) (dcos lm dtheta))"

text \<open>Lines 419 to 429: the turn command.\<close>

definition stage_turn :: "libm \<Rightarrow> mstate \<Rightarrow> mstate" where
  "stage_turn lm s =
     (if state s = 4 then
        let dtheta = turn_angle lm (goal s) (robot s);
            s1 = s\<lparr>cmd_turn := dtheta\<rparr>
        in s1\<lparr>pubs := pubs s1 @ [MiroPub (cmd_turn s1)]\<rparr>
      else s)"

definition look :: "libm \<Rightarrow> services \<Rightarrow> mstate \<Rightarrow> outcome" where
  "look lm sv s =
     andthen (stage_gesture sv (begin_look s)) (\<lambda>s.
     andthen (stage_pert sv s) (\<lambda>s.
     andthen (stage_mont sv s) (\<lambda>s.
     andthen (stage_rrts sv s) (\<lambda>s.
     Continue ((stage_turn lm s)\<lparr>cmd := 0\<rparr>)))))"

section \<open>"go", "stop" and the loop\<close>

text \<open>Lines 436 to 444 and 447 to 455.\<close>

definition go :: "mstate \<Rightarrow> mstate" where
  "go s =
     (let s1 = s\<lparr>enable := True\<rparr>;
          s2 = s1\<lparr>pubs := pubs s1 @ [FlagPub (enable s1)]\<rparr>
      in s2\<lparr>cmd := 0\<rparr>)"

definition stop :: "mstate \<Rightarrow> mstate" where
  "stop s =
     (let s1 = s\<lparr>enable := False\<rparr>;
          s2 = s1\<lparr>pubs := pubs s1 @ [FlagPub (enable s1)]\<rparr>
      in s2\<lparr>cmd := 0\<rparr>)"

text \<open>One iteration of the loop, up to \<^verbatim>\<open>ros::spinOnce()\<close>: three \<^verbatim>\<open>if\<close>s in sequence.\<close>

definition loop_body :: "libm \<Rightarrow> services \<Rightarrow> mstate \<Rightarrow> outcome" where
  "loop_body lm sv s =
     andthen (if cmd s = 1 then look lm sv s else Continue s) (\<lambda>s.
       let s1 = (if cmd s = 2 then go s else s);
           s2 = (if cmd s1 = 3 then stop s1 else s1)
       in Continue s2)"

text \<open>
  The loop \<^verbatim>\<open>while(ros::ok())\<close>. A run is described by the iterations before shutdown:
  for each one, the behaviour of the services during it and the deliveries that its
  \<^verbatim>\<open>ros::spinOnce()\<close> handles. When the list is exhausted \<^verbatim>\<open>ros::ok()\<close> is false and
  \<^verbatim>\<open>main\<close> returns 0. \<^verbatim>\<open>loop_rate.sleep()\<close> has no effect on the state.
\<close>

fun main_loop :: "libm \<Rightarrow> (services \<times> delivery list) list \<Rightarrow> mstate \<Rightarrow> outcome" where
  "main_loop lm [] s = Exit 0 s"
| "main_loop lm ((sv, ds) # ticks) s =
     (case loop_body lm sv s of
        Continue s' \<Rightarrow> main_loop lm ticks (spinOnce ds s')
      | Exit c s' \<Rightarrow> Exit c s'
      | Undefined_Behaviour \<Rightarrow> Undefined_Behaviour)"

section \<open>Startup (lines 115 to 253)\<close>

text \<open>
  The state at the entry of \<^verbatim>\<open>main\<close>: the globals and the message-typed locals are
  default-constructed (all numbers 0, all vectors empty), \<^verbatim>\<open>state\<close> is 0, \<^verbatim>\<open>enable\<close> is
  false, the arrays \<^verbatim>\<open>matrices\<close> and \<^verbatim>\<open>landscape\<close> have their declared sizes.
\<close>

definition zero_Pose2D :: Pose2D where
  "zero_Pose2D = \<lparr>px = Fin 0, py = Fin 0, theta = Fin 0\<rparr>"

definition zero_Vector3 :: Vector3 where
  "zero_Vector3 = \<lparr>vx = Fin 0, vy = Fin 0, vz = Fin 0\<rparr>"

definition zero_Region :: Region where
  "zero_Region = \<lparr>center_x = Fin 0, center_y = Fin 0, center_z = Fin 0,
                   size_x = Fin 0, size_y = Fin 0, size_z = Fin 0\<rparr>"

definition initial :: mstate where
  "initial =
     \<lparr>cmd = 0, obs = zero_Pose2D, robot = zero_Pose2D,
      gesture = \<lparr>position = zero_Vector3,
                 orientation = \<lparr>qx = Fin 0, qy = Fin 0, qz = Fin 0, qw = Fin 0\<rparr>\<rparr>,
      target = zero_Pose2D, goal = zero_Pose2D, rrtPath = [],
      matrices = replicate (NZ * RES * RES) (Fin 0),
      landscape = replicate (RES * RES) (Fin 0),
      enable = False, cmd_turn = Fin 0, state = 0,
      srv_pert_matrices = [], srv_mont_landscape = [],
      srv_rrts = \<lparr>WS = zero_Region, Obstacles = [], Goal = zero_Region,
                  Init = zero_Vector3\<rparr>,
      pubs = [], rrts_calls = [], trace = []\<rparr>"

text \<open>Lines 133 to 135: the predefined obstacle dimensions.\<close>

definition obsdim :: "double list" where
  "obsdim = [double_of_int 80, double_of_int 80]"

text \<open>
  Lines 187 to 205: the workspace region and the obstacle region are written into the
  RRT* request. The obstacle region is built from the global \<^verbatim>\<open>obs\<close> as it stands
  there, and pushed on the request's list of obstacles.
\<close>

definition assign_regions :: "mstate \<Rightarrow> mstate" where
  "assign_regions s =
     (let workspace = \<lparr>center_x = double_of_int 0, center_y = double_of_int 0,
                       center_z = double_of_int 0, size_x = double_of_int HSIZE,
                       size_y = double_of_int VSIZE, size_z = double_of_int 0\<rparr>;
          s1 = s\<lparr>srv_rrts := (srv_rrts s)\<lparr>WS := workspace\<rparr>\<rparr>;
          obs_reg = \<lparr>center_x = px (obs s1), center_y = py (obs s1),
                     center_z = double_of_int 0, size_x = obsdim ! 0,
                     size_y = obsdim ! 1, size_z = double_of_int 0\<rparr>
      in s1\<lparr>srv_rrts :=
              (srv_rrts s1)\<lparr>Obstacles := Obstacles (srv_rrts s1) @ [obs_reg]\<rparr>\<rparr>)"

text \<open>
  \<^verbatim>\<open>main\<close>: the regions are assigned, the spatial reasoner is called once with the
  obstacle pose and dimensions, its \<^verbatim>\<open>NZ*RES*RES\<close> scalars are cached, and the loop
  starts. No callback runs before the first \<^verbatim>\<open>ros::spinOnce()\<close>, which is in the loop.
  The OpenCV plots are not modelled.
\<close>

definition main ::
  "libm \<Rightarrow> services \<Rightarrow> (services \<times> delivery list) list \<Rightarrow> outcome" where
  "main lm sv ticks =
     (let s = assign_regions initial
      in case spatial_reasoner sv (obs s, [obsdim ! 0, obsdim ! 1]) of
           None \<Rightarrow> Exit 1 s
         | Some ms \<Rightarrow>
             if length ms < NZ * RES * RES then Undefined_Behaviour
             else main_loop lm ticks (s\<lparr>matrices := take (NZ * RES * RES) ms\<rparr>))"

section \<open>The validity policy, in the words of the specification\<close>

text \<open>The operator \<^verbatim>\<open><=\<close> on doubles.\<close>

definition dle :: "double \<Rightarrow> double \<Rightarrow> bool" where
  "dle a b =
     (if a = NaN \<or> b = NaN then False
      else if isfinite a \<and> isfinite b then val a \<le> val b
      else a = NInf \<or> b = PInf)"

text \<open>
  A target or goal is valid iff both coordinates are finite and lie within
  \<open>[-HSIZE/2, HSIZE/2] \<times> [-VSIZE/2, VSIZE/2]\<close>, bounds included.
\<close>

definition valid_point :: "Pose2D \<Rightarrow> bool" where
  "valid_point p =
     (isfinite (px p) \<and> isfinite (py p)
      \<and> dle (Fin (- (real_of_int HSIZE / 2))) (px p) \<and> dle (px p) (Fin (real_of_int HSIZE / 2))
      \<and> dle (Fin (- (real_of_int VSIZE / 2))) (py p) \<and> dle (py p) (Fin (real_of_int VSIZE / 2)))"

section \<open>Observations and the remaining notions of the specification\<close>

text \<open>What is seen of an outcome: the state it ends in, the exit status, the publishes.\<close>

fun end_state :: "outcome \<Rightarrow> mstate option" where
  "end_state (Continue s) = Some s"
| "end_state (Exit c s) = Some s"
| "end_state Undefined_Behaviour = None"

fun exit_status :: "outcome \<Rightarrow> int option" where
  "exit_status (Continue s) = None"
| "exit_status (Exit c s) = Some c"
| "exit_status Undefined_Behaviour = None"

fun published :: "outcome \<Rightarrow> publish list" where
  "published (Continue s) = pubs s"
| "published (Exit c s) = pubs s"
| "published Undefined_Behaviour = []"

text \<open>
  The heading contract, in exact real arithmetic: \<open>atan2 y x\<close> is the angle of the point
  \<open>(x, y)\<close> (0 at the origin), \<open>normalize_angle a = atan2 (sin a) (cos a)\<close>, and
  \<open>computeHeadingDelta\<close> is the heading delta of a goal \<open>(gx, gy)\<close> seen from the robot pose
  \<open>(rx, ry, rt)\<close>.
\<close>

definition atan2 :: "real \<Rightarrow> real \<Rightarrow> real" where
  "atan2 y x =
     (if 0 < x then arctan (y / x)
      else if x < 0 then (if 0 \<le> y then arctan (y / x) + pi else arctan (y / x) - pi)
      else if 0 < y then pi / 2
      else if y < 0 then - (pi / 2)
      else 0)"

text \<open>
  A finite value is a double when it is \<open>n * 2\<^sup>e\<close> for an integer \<open>n\<close> of at most 53 bits and
  an exponent \<open>e\<close> of at least \<open>-1074\<close>, and is less than \<open>2\<^sup>1\<^sup>0\<^sup>2\<^sup>4\<close> in magnitude.
\<close>

definition is_double_value :: "real \<Rightarrow> bool" where
  "is_double_value v =
     (\<exists>n e. v = of_int n * pow2 e \<and> \<bar>n\<bar> < 2 ^ 53 \<and> - 1074 \<le> e \<and> \<bar>v\<bar> < 2 ^ 1024)"

definition normalize_angle :: "real \<Rightarrow> real" where
  "normalize_angle a = atan2 (sin a) (cos a)"

definition computeHeadingDelta :: "real \<times> real \<Rightarrow> real \<times> real \<times> real \<Rightarrow> real" where
  "computeHeadingDelta g r =
     (case (g, r) of ((gx, gy), (rx, ry, rt)) \<Rightarrow> normalize_angle (atan2 (gy - ry) (gx - rx) - rt))"

text \<open>A double that is a number of the interval \<open>(-\<pi>, \<pi>]\<close>.\<close>

fun in_heading_range :: "double \<Rightarrow> bool" where
  "in_heading_range (Fin r) = (- pi < r \<and> r \<le> pi)"
| "in_heading_range NegZero = True"
| "in_heading_range PInf = False"
| "in_heading_range NInf = False"
| "in_heading_range NaN = False"

text \<open>The obstacle box of the zero pose, 80 by 80.\<close>

definition zero_obstacle_region :: Region where
  "zero_obstacle_region =
     \<lparr>center_x = Fin 0, center_y = Fin 0, center_z = Fin 0,
      size_x = Fin 80, size_y = Fin 80, size_z = Fin 0\<rparr>"

text \<open>
  Services for the examples: the spatial reasoner returns a grid of zeros, the other four
  return the given responses whatever the request (\<open>None\<close>: the call fails).
\<close>

definition fixed_services ::
  "Pose2D option \<Rightarrow> double list option \<Rightarrow> Pose2D option \<Rightarrow> Vector3 list option \<Rightarrow> services" where
  "fixed_services t ls g path =
     \<lparr>spatial_reasoner = (\<lambda>req. Some (replicate (NZ * RES * RES) (Fin 0))),
      gesture_processing = (\<lambda>req. t),
      pertinence_mapper = (\<lambda>req. ls),
      monte_carlo = (\<lambda>req. g),
      rrtStarService = (\<lambda>req. path)\<rparr>"

definition point :: "double \<Rightarrow> double \<Rightarrow> Pose2D" where
  "point a b = \<lparr>px = a, py = b, theta = Fin 0\<rparr>"

text \<open>
  Services whose every response passes its check: target at the origin, a landscape of
  zeros, goal at (100, 0), an empty path.
\<close>

definition all_valid_services :: services where
  "all_valid_services =
     fixed_services (Some (point (Fin 0) (Fin 0))) (Some (replicate (RES * RES) (Fin 0)))
       (Some (point (Fin 100) (Fin 0))) (Some [])"

text \<open>Services that answer the goal (NaN, 0) to a valid target and landscape.\<close>

definition nan_goal_services :: services where
  "nan_goal_services =
     fixed_services (Some (point (Fin 0) (Fin 0))) (Some (replicate (RES * RES) (Fin 0)))
       (Some (point NaN (Fin 0))) (Some [])"

text \<open>
  Services of which the first call to fail is the pertinence mapper's, the Monte Carlo
  simulation's, the RRT* planner's; the calls before it answer as \<open>all_valid_services\<close>.
\<close>

definition pert_failing_services :: services where
  "pert_failing_services = fixed_services (Some (point (Fin 0) (Fin 0))) None None None"

definition mont_failing_services :: services where
  "mont_failing_services =
     fixed_services (Some (point (Fin 0) (Fin 0))) (Some (replicate (RES * RES) (Fin 0)))
       None None"

definition rrts_failing_services :: services where
  "rrts_failing_services =
     fixed_services (Some (point (Fin 0) (Fin 0))) (Some (replicate (RES * RES) (Fin 0)))
       (Some (point (Fin 100) (Fin 0))) None"

text \<open>Services whose every call fails.\<close>

definition failing_services :: services where
  "failing_services =
     \<lparr>spatial_reasoner = (\<lambda>req. None), gesture_processing = (\<lambda>req. None),
      pertinence_mapper = (\<lambda>req. None), monte_carlo = (\<lambda>req. None),
      rrtStarService = (\<lambda>req. None)\<rparr>"

text \<open>
  The obstacle list of the RRT* request, and of every request sent so far, is the single
  box of the zero pose.
\<close>

definition obstacles_fixed :: "mstate \<Rightarrow> bool" where
  "obstacles_fixed s =
     (Obstacles (srv_rrts s) = [zero_obstacle_region]
      \<and> list_all (\<lambda>r. Obstacles r = [zero_obstacle_region]) (rrts_calls s))"

section \<open>Properties\<close>

subsection \<open>Auxiliary facts: rounding\<close>

lemma pow2_powr: "pow2 e = 2 powr (real_of_int e)"
  by (simp add: pow2_def powr_real_of_int inverse_eq_divide)

lemma pow2_pos: "0 < pow2 e"
  by (simp add: pow2_powr)

lemma pow2_add: "pow2 (a + b) = pow2 a * pow2 b"
  by (simp add: pow2_powr powr_add)

lemma pow2_nat: "0 \<le> e \<Longrightarrow> pow2 e = of_int (2 ^ nat e)"
  by (simp add: pow2_def)

lemma pow2_less_iff: "pow2 a < pow2 b \<longleftrightarrow> a < b"
  by (simp add: pow2_powr)

lemma floor_log2_eq: "pow2 k \<le> \<bar>r\<bar> \<Longrightarrow> \<bar>r\<bar> < pow2 (k + 1) \<Longrightarrow> \<lfloor>log 2 \<bar>r\<bar>\<rfloor> = k"
proof -
  assume a: "pow2 k \<le> \<bar>r\<bar>" and b: "\<bar>r\<bar> < pow2 (k + 1)"
  from a pow2_pos [of k] have p: "0 < \<bar>r\<bar>" by linarith
  from a b show ?thesis
    by (simp add: floor_log_eq_powr_iff [OF p] pow2_powr)
qed

lemma floor_log2_bounds:
  assumes "r \<noteq> 0"
  shows "pow2 \<lfloor>log 2 \<bar>r\<bar>\<rfloor> \<le> \<bar>r\<bar> \<and> \<bar>r\<bar> < pow2 (\<lfloor>log 2 \<bar>r\<bar>\<rfloor> + 1)"
proof -
  from assms have p: "0 < \<bar>r\<bar>" by simp
  have "\<lfloor>log 2 \<bar>r\<bar>\<rfloor> = \<lfloor>log 2 \<bar>r\<bar>\<rfloor>" ..
  with floor_log_eq_powr_iff [OF p, of 2 "\<lfloor>log 2 \<bar>r\<bar>\<rfloor>"]
  have "2 powr (of_int \<lfloor>log 2 \<bar>r\<bar>\<rfloor>) \<le> \<bar>r\<bar> \<and> \<bar>r\<bar> < 2 powr (of_int (\<lfloor>log 2 \<bar>r\<bar>\<rfloor> + 1))"
    by simp
  then show ?thesis by (simp only: pow2_powr)
qed

lemma round_half_even_int: "round_half_even (of_int m) = m"
  by (simp add: round_half_even_def)

text \<open>Evaluating the rounding once the binade of \<open>r\<close> is known.\<close>

lemma round_double_binade:
  assumes "pow2 k \<le> \<bar>r\<bar>" and "\<bar>r\<bar> < pow2 (k + 1)"
  shows "round_double r =
     (let e = max k (- 1022) - 52;
          v = of_int (round_half_even (r / pow2 e)) * pow2 e
      in if 2 ^ 1024 \<le> \<bar>v\<bar> then (if r < 0 then NInf else PInf)
         else if v = 0 then (if r < 0 then NegZero else Fin 0)
         else Fin v)"
  by (simp add: round_double_def floor_log2_eq [OF assms])

lemma round_double_exact:
  assumes d: "is_double_value v" and nz: "v \<noteq> 0"
  shows "round_double v = Fin v"
proof -
  from d obtain n e where v: "v = of_int n * pow2 e" and n: "\<bar>n\<bar> < 2 ^ 53"
    and e: "- 1074 \<le> e" and b: "\<bar>v\<bar> < 2 ^ 1024"
    by (auto simp: is_double_value_def)
  define k where "k = \<lfloor>log 2 \<bar>v\<bar>\<rfloor>"
  define E where "E = max k (- 1022) - 52"
  from floor_log2_bounds [OF nz] have lo: "pow2 k \<le> \<bar>v\<bar>" by (simp add: k_def)
  have "\<bar>v\<bar> = of_int \<bar>n\<bar> * pow2 e"
    using pow2_pos [of e] by (simp add: v abs_mult)
  also have "\<dots> < 2 ^ 53 * pow2 e"
  proof -
    from n have "(of_int \<bar>n\<bar> :: real) < of_int (2 ^ 53)" by (simp only: of_int_less_iff)
    then have "(of_int \<bar>n\<bar> :: real) < 2 ^ 53" by simp
    then show ?thesis using pow2_pos [of e] by (simp only: mult_less_cancel_right_pos)
  qed
  also have "\<dots> = pow2 (53 + e)"
  proof -
    have "pow2 53 = 2 ^ 53" by (simp add: pow2_def)
    then show ?thesis by (simp only: pow2_add)
  qed
  finally have "pow2 k < pow2 (53 + e)" using lo by linarith
  then have "k < 53 + e" by (simp only: pow2_less_iff)
  with e have Ee: "E \<le> e" by (simp add: E_def)
  define m where "m = n * 2 ^ nat (e - E)"
  have "pow2 e = pow2 (e - E) * pow2 E" by (simp add: pow2_add [symmetric])
  also have "pow2 (e - E) = of_int (2 ^ nat (e - E))" using Ee by (simp add: pow2_nat)
  finally have pe: "pow2 e = of_int (2 ^ nat (e - E)) * pow2 E" .
  have vm: "v = of_int m * pow2 E" by (simp add: v pe m_def)
  then have q: "v / pow2 E = of_int m" using pow2_pos [of E] by simp
  have "round_double v =
     (let v' = of_int (round_half_even (v / pow2 E)) * pow2 E
      in if 2 ^ 1024 \<le> \<bar>v'\<bar> then (if v < 0 then NInf else PInf)
         else if v' = 0 then (if v < 0 then NegZero else Fin 0)
         else Fin v')"
    by (simp add: round_double_def k_def E_def Let_def)
  also have "\<dots> = Fin v"
    using b nz by (simp add: q round_half_even_int vm [symmetric] Let_def)
  finally show ?thesis .
qed

lemma is_double_value_int: "\<bar>n\<bar> < 2 ^ 53 \<Longrightarrow> is_double_value (of_int n)"
proof -
  assume n: "\<bar>n\<bar> < 2 ^ 53"
  then have "(of_int \<bar>n\<bar> :: real) < of_int (2 ^ 53)" by (simp only: of_int_less_iff)
  then have "\<bar>of_int n :: real\<bar> < 2 ^ 53" by simp
  also have "(2::real) ^ 53 < 2 ^ 1024" by simp
  finally have "\<bar>of_int n :: real\<bar> < 2 ^ 1024" .
  with n show ?thesis
    unfolding is_double_value_def
    by (intro exI [of _ n] exI [of _ 0]) (simp add: pow2_def)
qed

lemma round_double_100: "round_double 100 = Fin 100"
  using round_double_exact [OF is_double_value_int [of 100]] by simp

lemma round_double_200: "round_double 200 = Fin 200"
  using round_double_exact [OF is_double_value_int [of 200]] by simp

lemma round_double_7:
  "round_double (100 * (1261007895663739 / 2 ^ 54)) = Fin (7881299347898369 / 2 ^ 50)"
proof -
  have "round_double (100 * (1261007895663739 / 2 ^ 54)) =
     (let e = max 2 (- 1022) - 52;
          v = of_int (round_half_even (100 * (1261007895663739 / 2 ^ 54) / pow2 e)) * pow2 e
      in if 2 ^ 1024 \<le> \<bar>v\<bar> then (if 100 * (1261007895663739 / 2 ^ 54) < (0::real) then NInf else PInf)
         else if v = 0 then (if 100 * (1261007895663739 / 2 ^ 54) < (0::real) then NegZero else Fin 0)
         else Fin v)"
    by (rule round_double_binade) (simp_all add: pow2_def)
  also have "\<dots> = Fin (7881299347898369 / 2 ^ 50)"
    by (simp add: pow2_def round_half_even_def Let_def)
  finally show ?thesis .
qed

lemma round_double_overflow: "round_double (100 * 2 ^ 1023) = PInf"
proof -
  have "round_double (100 * 2 ^ 1023) =
     (let e = max 1029 (- 1022) - 52;
          v = of_int (round_half_even (100 * 2 ^ 1023 / pow2 e)) * pow2 e
      in if 2 ^ 1024 \<le> \<bar>v\<bar> then (if 100 * 2 ^ 1023 < (0::real) then NInf else PInf)
         else if v = 0 then (if 100 * 2 ^ 1023 < (0::real) then NegZero else Fin 0)
         else Fin v)"
    by (rule round_double_binade) (simp_all add: pow2_def)
  also have "\<dots> = PInf"
    by (simp add: pow2_def round_half_even_def Let_def)
  finally show ?thesis .
qed

lemma is_double_value_7: "is_double_value (1261007895663739 / 2 ^ 54)"
proof -
  have a: "\<bar>1261007895663739 / 2 ^ 54 :: real\<bar> < 1" by simp
  have b: "(1::real) < 2 ^ 1024" by simp
  from a b have c: "\<bar>1261007895663739 / 2 ^ 54 :: real\<bar> < 2 ^ 1024" by (rule less_trans)
  have d: "(1261007895663739 / 2 ^ 54 :: real) = of_int 1261007895663739 * pow2 (- 54)"
    by (simp add: pow2_def)
  have e: "\<bar>1261007895663739 :: int\<bar> < 2 ^ 53" by simp
  from c d e show ?thesis
    unfolding is_double_value_def
    by (intro exI [of _ 1261007895663739] exI [of _ "- 54"] conjI) simp_all
qed

lemma is_double_value_max: "is_double_value (2 ^ 1023)"
proof -
  have c: "\<bar>(2::real) ^ 1023\<bar> < 2 ^ 1024" by simp
  have d: "((2::real) ^ 1023) = of_int 1 * pow2 1023" by (simp add: pow2_def)
  from c d show ?thesis
    unfolding is_double_value_def
    by (intro exI [of _ 1] exI [of _ 1023] conjI) simp_all
qed

subsection \<open>Auxiliary facts: the program\<close>

lemmas stage_defs = stage_gesture_def stage_pert_def stage_mont_def stage_rrts_def
  stage_turn_def begin_look_def set_state_def Let_def

lemmas arith_defs = dmul_def dsub_def dsin_def dcos_def datan2_def is_zero_def is_inf_def
  dless_def dgreater_def dle_def double_of_int_def

lemmas run_defs = main_def assign_regions_def obsdim_def loop_body_def look_def stage_defs
  go_def stop_def getCmd_def getRobotPose_def getGesture_def getObstaclePose_def
  rrts_request_def turn_angle_def fixed_services_def all_valid_services_def
  nan_goal_services_def pert_failing_services_def mont_failing_services_def
  rrts_failing_services_def failing_services_def initial_def point_def zero_Pose2D_def
  zero_Vector3_def zero_Region_def out_of_bounds_def arith_defs HSIZE_def VSIZE_def
  RES_def NZ_def round_double_100 round_double_200

text \<open>The two checks of the target, taken together, are the validity policy.\<close>

lemma valid_point_iff:
  "valid_point p \<longleftrightarrow> isfinite (px p) \<and> isfinite (py p) \<and> \<not> out_of_bounds p"
  by (cases "px p"; cases "py p")
     (auto simp: valid_point_def out_of_bounds_def arith_defs HSIZE_def VSIZE_def)

text \<open>
  The check of the goal as coded: the bounds alone. It agrees with the validity policy on
  every goal without a NaN coordinate.
\<close>

lemma stage_mont_gate:
  assumes "state s = 2"
    and "monte_carlo sv (target s, srv_mont_landscape s @ take (RES * RES) (landscape s)) = Some g"
  shows "(\<exists>s'. stage_mont sv s = Continue s' \<and> goal s' = g
            \<and> state s' = (if out_of_bounds g then 0 else 3))
         \<and> (px g \<noteq> NaN \<and> py g \<noteq> NaN \<longrightarrow> (\<not> out_of_bounds g) = valid_point g)"
proof (intro conjI impI)
  show "\<exists>s'. stage_mont sv s = Continue s' \<and> goal s' = g
            \<and> state s' = (if out_of_bounds g then 0 else 3)"
    using assms by (simp add: stage_defs)
next
  assume "px g \<noteq> NaN \<and> py g \<noteq> NaN"
  then show "(\<not> out_of_bounds g) = valid_point g"
    by (cases "px g"; cases "py g")
       (auto simp: valid_point_def out_of_bounds_def arith_defs HSIZE_def VSIZE_def)
qed

text \<open>The range of \<open>atan2\<close> on the reals.\<close>

lemma atan2_range: "- pi < atan2 y x \<and> atan2 y x \<le> pi"
proof -
  have l: "- (pi / 2) < arctan (y / x)" and u: "arctan (y / x) < pi / 2"
    by (rule arctan_lbound, rule arctan_ubound)
  have p: "0 < pi" by (rule pi_gt_zero)
  consider "0 < x" | "x < 0" "0 \<le> y" | "x < 0" "y < 0" | "x = 0"
    by linarith
  then show ?thesis
  proof cases
    case 1
    then have "atan2 y x = arctan (y / x)" by (simp add: atan2_def)
    with l u p show ?thesis by linarith
  next
    case 2
    then have "y / x \<le> 0" by (simp add: divide_nonneg_neg)
    then have "arctan (y / x) \<le> 0" by simp
    moreover from 2 have "atan2 y x = arctan (y / x) + pi" by (simp add: atan2_def)
    ultimately show ?thesis using l p by linarith
  next
    case 3
    then have "0 < y / x" by (simp add: divide_neg_neg)
    then have "0 < arctan (y / x)" by simp
    moreover from 3 have "atan2 y x = arctan (y / x) - pi" by (simp add: atan2_def)
    ultimately show ?thesis using u p by linarith
  next
    case 4
    then have "atan2 y x = pi / 2 \<or> atan2 y x = - (pi / 2) \<or> atan2 y x = 0"
      by (simp add: atan2_def)
    then show ?thesis using p by (elim disjE; intro conjI; linarith)
  qed
qed

lemma heading_examples:
  "computeHeadingDelta (100, 0) (0, 0, 0) = 0 \<and> computeHeadingDelta (0, 100) (0, 0, 0) = pi / 2"
  by (simp add: computeHeadingDelta_def normalize_angle_def atan2_def)

text \<open>The turn command: where it is NaN, and where its value comes from.\<close>

lemma datan2_NaN [simp]: "datan2 lm NaN x = NaN" "datan2 lm y NaN = NaN"
  by (simp_all add: datan2_def)

lemma dsub_NaN [simp]: "dsub a NaN = NaN" "dsub NaN b = NaN"
  by (simp_all add: dsub_def)

lemma dsin_not_finite: "\<not> isfinite d \<Longrightarrow> dsin lm d = NaN"
  by (cases d) (simp_all add: dsin_def is_inf_def)

lemma turn_angle_not_finite:
  "\<not> isfinite (dsub (datan2 lm (dsub (py g) (py r)) (dsub (px g) (px r))) (theta r))
   \<Longrightarrow> turn_angle lm g r = NaN"
  by (simp add: turn_angle_def Let_def dsin_not_finite)

lemma turn_angle_theta_NaN: "theta r = NaN \<Longrightarrow> turn_angle lm g r = NaN"
  by (simp add: turn_angle_not_finite)

lemma datan2_origin:
  "datan2 lm y x = NaN \<or> is_zero (datan2 lm y x) \<or> datan2 lm y x = m_atan2 lm y x"
  by (auto simp: datan2_def is_zero_def)

lemma turn_angle_origin:
  "turn_angle lm g r = NaN \<or> is_zero (turn_angle lm g r)
   \<or> (\<exists>y x. turn_angle lm g r = m_atan2 lm y x)"
  using datan2_origin [of lm] by (auto simp: turn_angle_def Let_def)

lemma turn_angle_ahead: "turn_angle lm (point (Fin 100) (Fin 0)) zero_Pose2D = Fin 0"
  by (simp add: turn_angle_def point_def zero_Pose2D_def arith_defs round_double_100)

lemma turn_angle_NaN:
  "theta r = NaN \<or> px r = NaN \<or> py r = NaN \<or> px g = NaN \<or> py g = NaN
   \<Longrightarrow> turn_angle lm g r = NaN"
  by (auto simp: turn_angle_def Let_def dsin_def)

lemma turn_angle_left:
  "turn_angle lm (point (Fin 0) (Fin 100)) zero_Pose2D =
     datan2 lm (dsin lm (dsub (m_atan2 lm (Fin 100) (Fin 0)) (Fin 0)))
               (dcos lm (dsub (m_atan2 lm (Fin 100) (Fin 0)) (Fin 0)))"
proof -
  have "datan2 lm (dsub (Fin 100) (Fin 0)) (dsub (Fin 0) (Fin 0)) = m_atan2 lm (Fin 100) (Fin 0)"
    by (simp add: dsub_def datan2_def is_zero_def is_inf_def round_double_100)
  then show ?thesis by (simp add: turn_angle_def point_def zero_Pose2D_def Let_def)
qed

text \<open>What a "look" activation leaves behind, when it completes and when it exits.\<close>

lemma look_pubs:
  "look lm sv s = Continue s' \<Longrightarrow>
     pubs s' = pubs s @ (if state s' = 4
                          then [PathPub (rrtPath s'), MiroPub (turn_angle lm (goal s') (robot s'))]
                          else [])"
  by (auto simp: look_def stage_defs split: option.splits if_splits)

lemma look_Continue_trace:
  "look lm sv s = Continue s' \<Longrightarrow>
     cmd s' = 0 \<and>
     ((state s' = 0 \<and> trace s' \<in> {[0], [0,0], [0,1,0], [0,1,2,0]})
      \<or> (state s' = 4 \<and> trace s' = [0,1,2,3,4]))"
  by (auto simp: look_def stage_defs split: option.splits if_splits)

lemma look_Exit_trace:
  "look lm sv s = Exit c s' \<Longrightarrow>
     c = 1 \<and> pubs s' = pubs s \<and> cmd s' = cmd s \<and>
     (state s', trace s') \<in> {(0, [0]), (1, [0,1]), (2, [0,1,2]), (3, [0,1,2,3])}"
  by (auto simp: look_def stage_defs split: option.splits if_splits)

lemma look_robot: "look lm sv s = Continue s' \<Longrightarrow> robot s' = robot s"
  by (auto simp: look_def stage_defs split: option.splits if_splits)

text \<open>Why an activation exits, and the exit status of the loop.\<close>

lemma look_Exit_cause:
  "look lm sv s = Exit c s' \<Longrightarrow>
     (state s' = 0 \<and> gesture_processing sv (gesture s') = None)
     \<or> (state s' = 1 \<and> pertinence_mapper sv (target s', srv_pert_matrices s') = None)
     \<or> (state s' = 2 \<and> monte_carlo sv (target s', srv_mont_landscape s') = None)
     \<or> (state s' = 3 \<and> rrtStarService sv (srv_rrts s') = None)"
  by (auto simp: look_def stage_defs split: option.splits if_splits)

lemma loop_body_Exit:
  assumes "loop_body lm sv s = Exit c s'"
  shows "cmd s = 1 \<and> look lm sv s = Exit c s'"
proof (cases "cmd s = 1")
  case True
  with assms show ?thesis
    by (cases "look lm sv s") (simp_all add: loop_body_def Let_def)
next
  case False
  with assms show ?thesis by (simp add: loop_body_def Let_def)
qed

lemma main_loop_exit: "main_loop lm ticks s = Exit c s' \<Longrightarrow> c = 0 \<or> c = 1"
proof (induction ticks arbitrary: s)
  case Nil
  then show ?case by simp
next
  case (Cons t ticks)
  obtain sv ds where t: "t = (sv, ds)" by (cases t)
  show ?case
  proof (cases "loop_body lm sv s")
    case (Continue s1)
    with Cons.prems t have "main_loop lm ticks (spinOnce ds s1) = Exit c s'" by simp
    then show ?thesis by (rule Cons.IH)
  next
    case (Exit c1 s1)
    with Cons.prems t have "loop_body lm sv s = Exit c s'" by simp
    from loop_body_Exit [OF this] look_Exit_trace show ?thesis by blast
  next
    case Undefined_Behaviour
    with Cons.prems t show ?thesis by simp
  qed
qed

text \<open>An activation that exits ends the loop, with the exit status and state of the exit.\<close>

lemma main_loop_look_Exit:
  "cmd s = 1 \<Longrightarrow> look lm sv s = Exit c s' \<Longrightarrow> main_loop lm ((sv, ds) # ticks) s = Exit c s'"
  by (simp add: loop_body_def)

text \<open>
  A failed call ends the loop with exit status 1 and without a publish, whichever stage of
  the activation makes it.
\<close>

lemma main_loop_gesture_fails:
  assumes "cmd s = 1" and "gesture_processing sv (gesture s) = None"
  shows "exit_status (main_loop lm ((sv, ds) # ticks) s) = Some 1
         \<and> published (main_loop lm ((sv, ds) # ticks) s) = pubs s"
  using assms by (simp add: loop_body_def look_def stage_defs)

lemma main_loop_pert_fails:
  assumes "cmd s = 1" and "gesture_processing sv (gesture s) = Some t" and "valid_point t"
    and "pertinence_mapper sv (t, srv_pert_matrices s @ take (RES * RES * NZ) (matrices s)) = None"
  shows "exit_status (main_loop lm ((sv, ds) # ticks) s) = Some 1
         \<and> published (main_loop lm ((sv, ds) # ticks) s) = pubs s"
  using assms by (simp add: loop_body_def look_def stage_defs valid_point_iff)

lemma main_loop_mont_fails:
  assumes "cmd s = 1" and "gesture_processing sv (gesture s) = Some t" and "valid_point t"
    and "pertinence_mapper sv (t, srv_pert_matrices s @ take (RES * RES * NZ) (matrices s)) = Some ls"
    and "RES * RES \<le> length ls" and "isfinite (ls ! 0)"
    and "monte_carlo sv (t, srv_mont_landscape s @ take (RES * RES) ls) = None"
  shows "exit_status (main_loop lm ((sv, ds) # ticks) s) = Some 1
         \<and> published (main_loop lm ((sv, ds) # ticks) s) = pubs s"
  using assms by (simp add: loop_body_def look_def stage_defs valid_point_iff RES_def)

lemma main_loop_rrts_fails:
  assumes "cmd s = 1" and "gesture_processing sv (gesture s) = Some t" and "valid_point t"
    and "pertinence_mapper sv (t, srv_pert_matrices s @ take (RES * RES * NZ) (matrices s)) = Some ls"
    and "RES * RES \<le> length ls" and "isfinite (ls ! 0)"
    and "monte_carlo sv (t, srv_mont_landscape s @ take (RES * RES) ls) = Some g"
    and "\<not> out_of_bounds g"
    and "rrtStarService sv (rrts_request (s\<lparr>goal := g\<rparr>)) = None"
  shows "exit_status (main_loop lm ((sv, ds) # ticks) s) = Some 1
         \<and> published (main_loop lm ((sv, ds) # ticks) s) = pubs s"
  using assms
  by (simp add: loop_body_def look_def stage_defs valid_point_iff RES_def rrts_request_def)

text \<open>The obstacle list of the RRT* request is invariant.\<close>

lemma deliver_obstacles_fixed: "obstacles_fixed s \<Longrightarrow> obstacles_fixed (deliver d s)"
  by (cases d)
     (simp_all add: obstacles_fixed_def getCmd_def getRobotPose_def getGesture_def
        getObstaclePose_def)

lemma spinOnce_obstacles_fixed: "obstacles_fixed s \<Longrightarrow> obstacles_fixed (spinOnce ds s)"
  by (induction ds arbitrary: s) (simp_all add: deliver_obstacles_fixed)

lemma look_obstacles_fixed:
  "obstacles_fixed s \<Longrightarrow> end_state (look lm sv s) = Some s' \<Longrightarrow> obstacles_fixed s'"
  by (auto simp: look_def stage_defs rrts_request_def obstacles_fixed_def
        split: option.splits if_splits)

lemma loop_body_obstacles_fixed:
  assumes "obstacles_fixed s" and "end_state (loop_body lm sv s) = Some s'"
  shows "obstacles_fixed s'"
proof -
  have tail: "obstacles_fixed s1 \<Longrightarrow>
      obstacles_fixed (let s2 = (if cmd s1 = 2 then go s1 else s1);
                           s3 = (if cmd s2 = 3 then stop s2 else s2) in s3)" for s1
    by (simp add: obstacles_fixed_def go_def stop_def Let_def)
  show ?thesis
  proof (cases "cmd s = 1")
    case True
    show ?thesis
    proof (cases "look lm sv s")
      case (Continue s1)
      then have "obstacles_fixed s1"
        using look_obstacles_fixed [OF assms(1), of lm sv s1] by simp
      from tail [OF this] assms(2) True Continue show ?thesis
        by (simp add: loop_body_def Let_def)
    next
      case (Exit c s1)
      then have "obstacles_fixed s1"
        using look_obstacles_fixed [OF assms(1), of lm sv s1] by simp
      with assms(2) True Exit show ?thesis by (simp add: loop_body_def)
    next
      case Undefined_Behaviour
      with assms(2) True show ?thesis by (simp add: loop_body_def)
    qed
  next
    case False
    from tail [OF assms(1)] assms(2) False show ?thesis
      by (simp add: loop_body_def Let_def)
  qed
qed

lemma main_loop_obstacles_fixed:
  "obstacles_fixed s \<Longrightarrow> end_state (main_loop lm ticks s) = Some s' \<Longrightarrow> obstacles_fixed s'"
proof (induction ticks arbitrary: s)
  case Nil
  then show ?case by simp
next
  case (Cons t ticks)
  obtain sv ds where t: "t = (sv, ds)" by (cases t)
  show ?case
  proof (cases "loop_body lm sv s")
    case (Continue s1)
    then have "obstacles_fixed s1"
      using loop_body_obstacles_fixed [OF Cons.prems(1), of lm sv s1] by simp
    then have "obstacles_fixed (spinOnce ds s1)" by (rule spinOnce_obstacles_fixed)
    moreover from Cons.prems(2) t Continue
    have "end_state (main_loop lm ticks (spinOnce ds s1)) = Some s'" by simp
    ultimately show ?thesis by (rule Cons.IH)
  next
    case (Exit c s1)
    then have "obstacles_fixed s1"
      using loop_body_obstacles_fixed [OF Cons.prems(1), of lm sv s1] by simp
    with Cons.prems(2) t Exit show ?thesis by simp
  next
    case Undefined_Behaviour
    with Cons.prems(2) t show ?thesis by simp
  qed
qed

lemma assign_regions_initial:
  "obstacles_fixed (assign_regions initial)"
  "obstacles_fixed ((assign_regions initial)\<lparr>matrices := ms\<rparr>)"
  "obs (assign_regions initial) = zero_Pose2D"
  "pubs (assign_regions initial) = []"
  by (simp_all add: obstacles_fixed_def assign_regions_def obsdim_def initial_def
        zero_obstacle_region_def zero_Pose2D_def double_of_int_def Let_def)

lemma main_cases:
  "main lm sv ticks =
     (case spatial_reasoner sv (zero_Pose2D, [Fin 80, Fin 80]) of
        None \<Rightarrow> Exit 1 (assign_regions initial)
      | Some ms \<Rightarrow>
          if length ms < NZ * RES * RES then Undefined_Behaviour
          else main_loop lm ticks
                 ((assign_regions initial)\<lparr>matrices := take (NZ * RES * RES) ms\<rparr>))"
  by (simp add: main_def assign_regions_initial(3) obsdim_def double_of_int_def Let_def)

subsection \<open>The claims\<close>

text \<open>
  C1. The claim: a goal returned by the Monte Carlo stage advances the pipeline from
  LandscapeValid to GoalValid iff it is valid (finite and within the bounds), and a goal
  with a non-finite coordinate resets the pipeline to Idle. The code tests the bounds
  only, and every comparison with NaN is false: in the run below the goal (NaN, 0), which
  is not valid, is accepted, the path is published and the turn command NaN is emitted.
\<close>

theorem C1_nan_goal_accepted:
  "\<not> valid_point (point NaN (Fin 0))
   \<and> published
       (main lm (fixed_services (Some (point (Fin 0) (Fin 0))) (Some (replicate (RES * RES) (Fin 0)))
                (Some (point NaN (Fin 0))) (Some []))
          [(fixed_services (Some (point (Fin 0) (Fin 0))) (Some (replicate (RES * RES) (Fin 0)))
                (Some (point NaN (Fin 0))) (Some []), [CmdMsg 1]),
           (fixed_services (Some (point (Fin 0) (Fin 0))) (Some (replicate (RES * RES) (Fin 0)))
                (Some (point NaN (Fin 0))) (Some []), [])])
     = [PathPub [], MiroPub NaN]"
  by (simp add: valid_point_def run_defs)

text \<open>
  C2. When gesture processing returns the target \<open>t\<close>, the pipeline state after the
  target stage is TargetValid (1) if \<open>t\<close> is valid, that is finite and within the bounds,
  bounds included, and Idle (0) otherwise; in the second case the activation ends there:
  besides the target, the command tag (cleared) and the pipeline state (0), the state
  of the node is as before, so nothing was published and no further service was called.
  The corners \<open>(\<plusminus>HSIZE/2, \<plusminus>VSIZE/2)\<close> are valid.
\<close>

theorem C2_target_gate:
  assumes "gesture_processing sv (gesture s) = Some t"
  shows "(\<exists>s1. stage_gesture sv (begin_look s) = Continue s1 \<and> target s1 = t
           \<and> state s1 = (if valid_point t then 1 else 0))
   \<and> (\<not> valid_point t \<longrightarrow>
        (\<exists>s'. look lm sv s = Continue s'
            \<and> s' = s\<lparr>target := t, state := 0, cmd := 0, trace := trace s'\<rparr>))
   \<and> valid_point (point (Fin (real_of_int HSIZE / 2)) (Fin (- (real_of_int VSIZE / 2))))
   \<and> valid_point (point (Fin (- (real_of_int HSIZE / 2))) (Fin (real_of_int VSIZE / 2)))"
proof (intro conjI)
  show "\<exists>s1. stage_gesture sv (begin_look s) = Continue s1 \<and> target s1 = t
           \<and> state s1 = (if valid_point t then 1 else 0)"
    using assms by (simp add: stage_defs valid_point_iff)
  show "\<not> valid_point t \<longrightarrow>
        (\<exists>s'. look lm sv s = Continue s'
            \<and> s' = s\<lparr>target := t, state := 0, cmd := 0, trace := trace s'\<rparr>)"
    using assms by (simp add: look_def stage_defs valid_point_iff)
  show "valid_point (point (Fin (real_of_int HSIZE / 2)) (Fin (- (real_of_int VSIZE / 2))))"
    by (simp add: valid_point_def point_def dle_def HSIZE_def VSIZE_def)
  show "valid_point (point (Fin (- (real_of_int HSIZE / 2))) (Fin (real_of_int VSIZE / 2)))"
    by (simp add: valid_point_def point_def dle_def HSIZE_def VSIZE_def)
qed

theorem C2_target_gate_witness:
  "\<forall>lm. (\<exists>s1. stage_gesture (fixed_services (Some (point (Fin 200) (Fin (- 200)))) None None None)
            (begin_look initial) = Continue s1 \<and> state s1 = 1)
   \<and> (\<exists>s'. look lm (fixed_services (Some (point NaN (Fin 0))) None None None) initial = Continue s'
          \<and> s' = initial\<lparr>target := point NaN (Fin 0), state := 0, cmd := 0, trace := trace s'\<rparr>)"
proof (rule allI)
  fix lm
  have v: "valid_point (point (Fin 200) (Fin (- 200)))"
    by (simp add: valid_point_def point_def dle_def HSIZE_def VSIZE_def)
  have n: "\<not> valid_point (point NaN (Fin 0))"
    by (simp add: valid_point_def point_def)
  have g: "gesture_processing (fixed_services (Some t) None None None) (gesture initial) = Some t"
    for t by (simp add: fixed_services_def)
  from C2_target_gate [OF g, of "point (Fin 200) (Fin (- 200))" lm, THEN conjunct1] v
  have a: "\<exists>s1. stage_gesture (fixed_services (Some (point (Fin 200) (Fin (- 200)))) None None None)
            (begin_look initial) = Continue s1 \<and> state s1 = 1"
    by (simp only: if_True) blast
  from C2_target_gate [OF g, of "point NaN (Fin 0)" lm, THEN conjunct2, THEN conjunct1] n
  have b: "\<exists>s'. look lm (fixed_services (Some (point NaN (Fin 0))) None None None) initial = Continue s'
          \<and> s' = initial\<lparr>target := point NaN (Fin 0), state := 0, cmd := 0, trace := trace s'\<rparr>"
    by (rule mp)
  from a b show "(\<exists>s1. stage_gesture (fixed_services (Some (point (Fin 200) (Fin (- 200)))) None None None)
            (begin_look initial) = Continue s1 \<and> state s1 = 1)
   \<and> (\<exists>s'. look lm (fixed_services (Some (point NaN (Fin 0))) None None None) initial = Continue s'
          \<and> s' = initial\<lparr>target := point NaN (Fin 0), state := 0, cmd := 0, trace := trace s'\<rparr>)"
    by (rule conjI)
qed

text \<open>
  C3. The claim: the pipeline state advances only on a positive validity check, and a
  failed validity check resets it to Idle. In the run below the Monte Carlo service
  answers the goal (NaN, 0), which is not valid; the states assigned in the activation are
  nevertheless 0, 1, 2, 3, 4: the pipeline advances from LandscapeValid to GoalValid and
  on to PathPublished with a goal that fails the validity policy.
\<close>

theorem C3_nan_goal_advances:
  "\<not> valid_point (point NaN (Fin 0))
   \<and> map_option (\<lambda>s. (goal s, trace s, state s))
       (end_state (main lm nan_goal_services
          [(nan_goal_services, [CmdMsg 1]), (nan_goal_services, [])]))
     = Some (point NaN (Fin 0), [0, 1, 2, 3, 4], 4)"
  by (simp add: valid_point_def run_defs)

text \<open>
  C4. A failed call ends the process with exit status 1 and without a further publish.
  For the spatial reasoner at startup: \<^verbatim>\<open>main\<close> returns 1 and nothing has been published.
  For the four calls of a "look" activation: when the command tag is 1 and gesture
  processing fails, or it answers a valid target and the pertinence mapper fails, or that
  answers a landscape whose first scalar is finite and the Monte Carlo simulation fails,
  or that answers a goal within the bounds and the RRT* planner fails, the loop returns 1
  in this iteration, whatever iterations were to follow, and what has been published is
  what was published before the activation. Conversely an activation exits only with
  status 1, only because the call of its current stage failed, and with the publishes it
  started with. When \<^verbatim>\<open>ros::ok()\<close> is false the loop returns 0, and \<^verbatim>\<open>main\<close> returns no
  status but 0 or 1. When the spatial reasoner answers its \<open>NZ * RES * RES\<close> scalars,
  \<^verbatim>\<open>main\<close> returns what the loop returns from the startup state, so that an exit of the
  loop is the exit of the process.
\<close>

theorem C4_call_failure_exits_1:
  "(spatial_reasoner sv (zero_Pose2D, [Fin 80, Fin 80]) = None \<longrightarrow>
      exit_status (main lm sv ticks) = Some 1 \<and> published (main lm sv ticks) = [])
   \<and> (cmd s = 1 \<and> gesture_processing sv (gesture s) = None \<longrightarrow>
      exit_status (main_loop lm ((sv, ds) # ticks) s) = Some 1
      \<and> published (main_loop lm ((sv, ds) # ticks) s) = pubs s)
   \<and> (cmd s = 1 \<and> gesture_processing sv (gesture s) = Some t \<and> valid_point t
       \<and> pertinence_mapper sv (t, srv_pert_matrices s @ take (RES * RES * NZ) (matrices s)) = None \<longrightarrow>
      exit_status (main_loop lm ((sv, ds) # ticks) s) = Some 1
      \<and> published (main_loop lm ((sv, ds) # ticks) s) = pubs s)
   \<and> (cmd s = 1 \<and> gesture_processing sv (gesture s) = Some t \<and> valid_point t
       \<and> pertinence_mapper sv (t, srv_pert_matrices s @ take (RES * RES * NZ) (matrices s)) = Some ls
       \<and> RES * RES \<le> length ls \<and> isfinite (ls ! 0)
       \<and> monte_carlo sv (t, srv_mont_landscape s @ take (RES * RES) ls) = None \<longrightarrow>
      exit_status (main_loop lm ((sv, ds) # ticks) s) = Some 1
      \<and> published (main_loop lm ((sv, ds) # ticks) s) = pubs s)
   \<and> (cmd s = 1 \<and> gesture_processing sv (gesture s) = Some t \<and> valid_point t
       \<and> pertinence_mapper sv (t, srv_pert_matrices s @ take (RES * RES * NZ) (matrices s)) = Some ls
       \<and> RES * RES \<le> length ls \<and> isfinite (ls ! 0)
       \<and> monte_carlo sv (t, srv_mont_landscape s @ take (RES * RES) ls) = Some g
       \<and> \<not> out_of_bounds g \<and> rrtStarService sv (rrts_request (s\<lparr>goal := g\<rparr>)) = None \<longrightarrow>
      exit_status (main_loop lm ((sv, ds) # ticks) s) = Some 1
      \<and> published (main_loop lm ((sv, ds) # ticks) s) = pubs s)
   \<and> (look lm sv s = Exit c s' \<longrightarrow>
      c = 1 \<and> pubs s' = pubs s
      \<and> ((state s' = 0 \<and> gesture_processing sv (gesture s') = None)
         \<or> (state s' = 1 \<and> pertinence_mapper sv (target s', srv_pert_matrices s') = None)
         \<or> (state s' = 2 \<and> monte_carlo sv (target s', srv_mont_landscape s') = None)
         \<or> (state s' = 3 \<and> rrtStarService sv (srv_rrts s') = None)))
   \<and> (loop_body lm sv s = Exit c s' \<longrightarrow>
      c = 1 \<and> pubs s' = pubs s \<and> main_loop lm ((sv, ds) # ticks) s = Exit 1 s')
   \<and> main_loop lm [] s = Exit 0 s
   \<and> (exit_status (main lm sv ticks) = Some c \<longrightarrow> c = 0 \<or> c = 1)
   \<and> (spatial_reasoner sv (zero_Pose2D, [Fin 80, Fin 80]) = Some ms
       \<and> NZ * RES * RES \<le> length ms \<longrightarrow>
      main lm sv ticks
        = main_loop lm ticks ((assign_regions initial)\<lparr>matrices := take (NZ * RES * RES) ms\<rparr>))"
proof (intro conjI impI)
  assume "spatial_reasoner sv (zero_Pose2D, [Fin 80, Fin 80]) = None"
  then show "exit_status (main lm sv ticks) = Some 1" and "published (main lm sv ticks) = []"
    by (simp_all add: main_cases assign_regions_initial(4))
next
  assume h: "cmd s = 1 \<and> gesture_processing sv (gesture s) = None"
  then have "exit_status (main_loop lm ((sv, ds) # ticks) s) = Some 1
      \<and> published (main_loop lm ((sv, ds) # ticks) s) = pubs s"
    by (intro main_loop_gesture_fails) simp_all
  then show "exit_status (main_loop lm ((sv, ds) # ticks) s) = Some 1"
    and "published (main_loop lm ((sv, ds) # ticks) s) = pubs s" by simp_all
next
  assume h: "cmd s = 1 \<and> gesture_processing sv (gesture s) = Some t \<and> valid_point t
       \<and> pertinence_mapper sv (t, srv_pert_matrices s @ take (RES * RES * NZ) (matrices s)) = None"
  then have "exit_status (main_loop lm ((sv, ds) # ticks) s) = Some 1
      \<and> published (main_loop lm ((sv, ds) # ticks) s) = pubs s"
    by (intro main_loop_pert_fails [where t = t]) simp_all
  then show "exit_status (main_loop lm ((sv, ds) # ticks) s) = Some 1"
    and "published (main_loop lm ((sv, ds) # ticks) s) = pubs s" by simp_all
next
  assume h: "cmd s = 1 \<and> gesture_processing sv (gesture s) = Some t \<and> valid_point t
       \<and> pertinence_mapper sv (t, srv_pert_matrices s @ take (RES * RES * NZ) (matrices s)) = Some ls
       \<and> RES * RES \<le> length ls \<and> isfinite (ls ! 0)
       \<and> monte_carlo sv (t, srv_mont_landscape s @ take (RES * RES) ls) = None"
  then have "exit_status (main_loop lm ((sv, ds) # ticks) s) = Some 1
      \<and> published (main_loop lm ((sv, ds) # ticks) s) = pubs s"
    by (intro main_loop_mont_fails [where t = t and ls = ls]) simp_all
  then show "exit_status (main_loop lm ((sv, ds) # ticks) s) = Some 1"
    and "published (main_loop lm ((sv, ds) # ticks) s) = pubs s" by simp_all
next
  assume h: "cmd s = 1 \<and> gesture_processing sv (gesture s) = Some t \<and> valid_point t
       \<and> pertinence_mapper sv (t, srv_pert_matrices s @ take (RES * RES * NZ) (matrices s)) = Some ls
       \<and> RES * RES \<le> length ls \<and> isfinite (ls ! 0)
       \<and> monte_carlo sv (t, srv_mont_landscape s @ take (RES * RES) ls) = Some g
       \<and> \<not> out_of_bounds g \<and> rrtStarService sv (rrts_request (s\<lparr>goal := g\<rparr>)) = None"
  then have "exit_status (main_loop lm ((sv, ds) # ticks) s) = Some 1
      \<and> published (main_loop lm ((sv, ds) # ticks) s) = pubs s"
    by (intro main_loop_rrts_fails [where t = t and ls = ls and g = g]) simp_all
  then show "exit_status (main_loop lm ((sv, ds) # ticks) s) = Some 1"
    and "published (main_loop lm ((sv, ds) # ticks) s) = pubs s" by simp_all
next
  assume l: "look lm sv s = Exit c s'"
  from look_Exit_trace [OF l] show "c = 1" and "pubs s' = pubs s" by simp_all
  from look_Exit_cause [OF l]
  show "(state s' = 0 \<and> gesture_processing sv (gesture s') = None)
         \<or> (state s' = 1 \<and> pertinence_mapper sv (target s', srv_pert_matrices s') = None)
         \<or> (state s' = 2 \<and> monte_carlo sv (target s', srv_mont_landscape s') = None)
         \<or> (state s' = 3 \<and> rrtStarService sv (srv_rrts s') = None)" .
next
  assume b: "loop_body lm sv s = Exit c s'"
  from loop_body_Exit [OF b] have l: "look lm sv s = Exit c s'" by simp
  from look_Exit_trace [OF l] show c: "c = 1" and "pubs s' = pubs s" by simp_all
  from b c show "main_loop lm ((sv, ds) # ticks) s = Exit 1 s'" by simp
next
  show "main_loop lm [] s = Exit 0 s" by simp
next
  assume e: "exit_status (main lm sv ticks) = Some c"
  then obtain s1 where m: "main lm sv ticks = Exit c s1"
    by (cases "main lm sv ticks") simp_all
  show "c = 0 \<or> c = 1"
  proof (cases "spatial_reasoner sv (zero_Pose2D, [Fin 80, Fin 80])")
    case None
    with m show ?thesis by (simp add: main_cases)
  next
    case (Some ms)
    with m have "\<exists>s0. main_loop lm ticks s0 = Exit c s1"
      by (auto simp: main_cases split: if_splits)
    then show ?thesis using main_loop_exit by blast
  qed
next
  assume "spatial_reasoner sv (zero_Pose2D, [Fin 80, Fin 80]) = Some ms
       \<and> NZ * RES * RES \<le> length ms"
  then show "main lm sv ticks
        = main_loop lm ticks ((assign_regions initial)\<lparr>matrices := take (NZ * RES * RES) ms\<rparr>)"
    by (simp add: main_cases)
qed

theorem C4_call_failure_exits_1_witness:
  "\<forall>lm.
     exit_status (main lm failing_services [(all_valid_services, [CmdMsg 1])]) = Some 1
   \<and> published (main lm failing_services [(all_valid_services, [CmdMsg 1])]) = []
   \<and> exit_status (main_loop lm [(failing_services, [CmdMsg 2]), (all_valid_services, [])]
        (initial\<lparr>cmd := 1\<rparr>)) = Some 1
   \<and> published (main_loop lm [(failing_services, [CmdMsg 2]), (all_valid_services, [])]
        (initial\<lparr>cmd := 1\<rparr>)) = []
   \<and> exit_status (main_loop lm [(pert_failing_services, [CmdMsg 2]), (all_valid_services, [])]
        (initial\<lparr>cmd := 1\<rparr>)) = Some 1
   \<and> published (main_loop lm [(pert_failing_services, [CmdMsg 2]), (all_valid_services, [])]
        (initial\<lparr>cmd := 1\<rparr>)) = []
   \<and> exit_status (main_loop lm [(mont_failing_services, [CmdMsg 2]), (all_valid_services, [])]
        (initial\<lparr>cmd := 1\<rparr>)) = Some 1
   \<and> published (main_loop lm [(mont_failing_services, [CmdMsg 2]), (all_valid_services, [])]
        (initial\<lparr>cmd := 1\<rparr>)) = []
   \<and> exit_status (main_loop lm [(rrts_failing_services, [CmdMsg 2]), (all_valid_services, [])]
        (initial\<lparr>cmd := 1\<rparr>)) = Some 1
   \<and> published (main_loop lm [(rrts_failing_services, [CmdMsg 2]), (all_valid_services, [])]
        (initial\<lparr>cmd := 1\<rparr>)) = []
   \<and> (\<exists>s'. look lm failing_services (initial\<lparr>cmd := 1\<rparr>) = Exit 1 s' \<and> pubs s' = []
          \<and> state s' = 0)
   \<and> (\<exists>s'. loop_body lm rrts_failing_services (initial\<lparr>cmd := 1\<rparr>) = Exit 1 s'
          \<and> pubs s' = [] \<and> state s' = 3)
   \<and> exit_status (main lm all_valid_services
         [(all_valid_services, [CmdMsg 1]), (mont_failing_services, [CmdMsg 2]),
          (all_valid_services, [])]) = Some 1
   \<and> published (main lm all_valid_services
         [(all_valid_services, [CmdMsg 1]), (mont_failing_services, [CmdMsg 2]),
          (all_valid_services, [])]) = []
   \<and> exit_status (main lm all_valid_services
         [(all_valid_services, [CmdMsg 1]), (all_valid_services, [])]) = Some 0
   \<and> main lm all_valid_services [(all_valid_services, [CmdMsg 1]), (all_valid_services, [])]
       = main_loop lm [(all_valid_services, [CmdMsg 1]), (all_valid_services, [])]
           ((assign_regions initial)
              \<lparr>matrices := take (NZ * RES * RES) (replicate (NZ * RES * RES) (Fin 0))\<rparr>)"
proof (rule allI)
  fix lm
  let ?s = "initial\<lparr>cmd := 1\<rparr>"
  let ?t = "point (Fin 0) (Fin 0)"
  let ?ls = "replicate (RES * RES) (Fin 0)"
  let ?g = "point (Fin 100) (Fin 0)"
  note c4 = C4_call_failure_exits_1 [where lm = lm]
  note loop = c4 [where s = ?s and ds = "[CmdMsg 2]" and ticks = "[(all_valid_services, [])]"
      and t = ?t and ls = ?ls and g = ?g]
  note ev = pert_failing_services_def mont_failing_services_def rrts_failing_services_def
    fixed_services_def failing_services_def valid_point_def out_of_bounds_def arith_defs
    point_def HSIZE_def VSIZE_def RES_def
  have p: "pubs ?s = []" by (simp add: initial_def)
  have h1: "spatial_reasoner failing_services (zero_Pose2D, [Fin 80, Fin 80]) = None"
    by (simp add: failing_services_def)
  from c4 [where sv = failing_services and ticks = "[(all_valid_services, [CmdMsg 1])]",
      THEN conjunct1] h1
  have r1: "exit_status (main lm failing_services [(all_valid_services, [CmdMsg 1])]) = Some 1
      \<and> published (main lm failing_services [(all_valid_services, [CmdMsg 1])]) = []"
    by (rule mp)
  have h2: "cmd ?s = 1 \<and> gesture_processing failing_services (gesture ?s) = None"
    by (simp add: ev)
  from loop [where sv = failing_services, THEN conjunct2, THEN conjunct1] h2
  have "exit_status (main_loop lm [(failing_services, [CmdMsg 2]), (all_valid_services, [])] ?s)
        = Some 1
      \<and> published (main_loop lm [(failing_services, [CmdMsg 2]), (all_valid_services, [])] ?s)
        = pubs ?s"
    by (rule mp)
  with p
  have r2: "exit_status (main_loop lm [(failing_services, [CmdMsg 2]), (all_valid_services, [])] ?s)
        = Some 1
      \<and> published (main_loop lm [(failing_services, [CmdMsg 2]), (all_valid_services, [])] ?s)
        = []"
    by simp
  have h3: "cmd ?s = 1 \<and> gesture_processing pert_failing_services (gesture ?s) = Some ?t
      \<and> valid_point ?t
      \<and> pertinence_mapper pert_failing_services
          (?t, srv_pert_matrices ?s @ take (RES * RES * NZ) (matrices ?s)) = None"
    by (simp add: ev)
  from loop [where sv = pert_failing_services, THEN conjunct2, THEN conjunct2, THEN conjunct1] h3
  have "exit_status (main_loop lm [(pert_failing_services, [CmdMsg 2]), (all_valid_services, [])]
          ?s) = Some 1
      \<and> published (main_loop lm [(pert_failing_services, [CmdMsg 2]), (all_valid_services, [])]
          ?s) = pubs ?s"
    by (rule mp)
  with p
  have r3: "exit_status (main_loop lm [(pert_failing_services, [CmdMsg 2]),
          (all_valid_services, [])] ?s) = Some 1
      \<and> published (main_loop lm [(pert_failing_services, [CmdMsg 2]), (all_valid_services, [])]
          ?s) = []"
    by simp
  have h4: "cmd ?s = 1 \<and> gesture_processing mont_failing_services (gesture ?s) = Some ?t
      \<and> valid_point ?t
      \<and> pertinence_mapper mont_failing_services
          (?t, srv_pert_matrices ?s @ take (RES * RES * NZ) (matrices ?s)) = Some ?ls
      \<and> RES * RES \<le> length ?ls \<and> isfinite (?ls ! 0)
      \<and> monte_carlo mont_failing_services
          (?t, srv_mont_landscape ?s @ take (RES * RES) ?ls) = None"
    by (simp add: ev)
  from loop [where sv = mont_failing_services, THEN conjunct2, THEN conjunct2, THEN conjunct2,
      THEN conjunct1] h4
  have "exit_status (main_loop lm [(mont_failing_services, [CmdMsg 2]), (all_valid_services, [])]
          ?s) = Some 1
      \<and> published (main_loop lm [(mont_failing_services, [CmdMsg 2]), (all_valid_services, [])]
          ?s) = pubs ?s"
    by (rule mp)
  with p
  have r4: "exit_status (main_loop lm [(mont_failing_services, [CmdMsg 2]),
          (all_valid_services, [])] ?s) = Some 1
      \<and> published (main_loop lm [(mont_failing_services, [CmdMsg 2]), (all_valid_services, [])]
          ?s) = []"
    by simp
  have h5: "cmd ?s = 1 \<and> gesture_processing rrts_failing_services (gesture ?s) = Some ?t
      \<and> valid_point ?t
      \<and> pertinence_mapper rrts_failing_services
          (?t, srv_pert_matrices ?s @ take (RES * RES * NZ) (matrices ?s)) = Some ?ls
      \<and> RES * RES \<le> length ?ls \<and> isfinite (?ls ! 0)
      \<and> monte_carlo rrts_failing_services
          (?t, srv_mont_landscape ?s @ take (RES * RES) ?ls) = Some ?g
      \<and> \<not> out_of_bounds ?g
      \<and> rrtStarService rrts_failing_services (rrts_request (?s\<lparr>goal := ?g\<rparr>)) = None"
    by (simp add: ev)
  from loop [where sv = rrts_failing_services, THEN conjunct2, THEN conjunct2, THEN conjunct2,
      THEN conjunct2, THEN conjunct1] h5
  have "exit_status (main_loop lm [(rrts_failing_services, [CmdMsg 2]), (all_valid_services, [])]
          ?s) = Some 1
      \<and> published (main_loop lm [(rrts_failing_services, [CmdMsg 2]), (all_valid_services, [])]
          ?s) = pubs ?s"
    by (rule mp)
  with p
  have r5: "exit_status (main_loop lm [(rrts_failing_services, [CmdMsg 2]),
          (all_valid_services, [])] ?s) = Some 1
      \<and> published (main_loop lm [(rrts_failing_services, [CmdMsg 2]), (all_valid_services, [])]
          ?s) = []"
    by simp
  have "\<exists>s'. look lm failing_services ?s = Exit 1 s' \<and> state s' = 0"
    by (simp add: look_def stage_defs failing_services_def)
  then obtain s1 where l: "look lm failing_services ?s = Exit 1 s1" and st1: "state s1 = 0"
    by (elim exE conjE)
  from c4 [where sv = failing_services and s = ?s and c = 1 and s' = s1, THEN conjunct2,
      THEN conjunct2, THEN conjunct2, THEN conjunct2, THEN conjunct2, THEN conjunct1] l
  have "1 = (1::int) \<and> pubs s1 = pubs ?s
      \<and> ((state s1 = 0 \<and> gesture_processing failing_services (gesture s1) = None)
         \<or> (state s1 = 1
             \<and> pertinence_mapper failing_services (target s1, srv_pert_matrices s1) = None)
         \<or> (state s1 = 2
             \<and> monte_carlo failing_services (target s1, srv_mont_landscape s1) = None)
         \<or> (state s1 = 3 \<and> rrtStarService failing_services (srv_rrts s1) = None))"
    by (rule mp)
  with p have "pubs s1 = []" by simp
  with l st1
  have r6: "\<exists>s'. look lm failing_services ?s = Exit 1 s' \<and> pubs s' = [] \<and> state s' = 0"
    by (intro exI [of _ s1] conjI)
  have "\<exists>s'. loop_body lm rrts_failing_services ?s = Exit 1 s' \<and> state s' = 3"
    by (simp add: loop_body_def look_def stage_defs rrts_request_def initial_def NZ_def ev)
  then obtain s2 where b: "loop_body lm rrts_failing_services ?s = Exit 1 s2"
    and st2: "state s2 = 3"
    by (elim exE conjE)
  from c4 [where sv = rrts_failing_services and s = ?s and c = 1 and s' = s2
      and ds = "[]" and ticks = "[]", THEN conjunct2, THEN conjunct2, THEN conjunct2,
      THEN conjunct2, THEN conjunct2, THEN conjunct2, THEN conjunct1] b
  have "1 = (1::int) \<and> pubs s2 = pubs ?s
      \<and> main_loop lm [(rrts_failing_services, [])] ?s = Exit 1 s2"
    by (rule mp)
  with p have "pubs s2 = []" by simp
  with b st2
  have r7: "\<exists>s'. loop_body lm rrts_failing_services ?s = Exit 1 s' \<and> pubs s' = []
      \<and> state s' = 3"
    by (intro exI [of _ s2] conjI)
  have r8: "exit_status (main lm all_valid_services
         [(all_valid_services, [CmdMsg 1]), (mont_failing_services, [CmdMsg 2]),
          (all_valid_services, [])]) = Some 1
      \<and> published (main lm all_valid_services
         [(all_valid_services, [CmdMsg 1]), (mont_failing_services, [CmdMsg 2]),
          (all_valid_services, [])]) = []"
    by (simp add: run_defs)
  have r9: "exit_status (main lm all_valid_services
         [(all_valid_services, [CmdMsg 1]), (all_valid_services, [])]) = Some 0"
    by (simp add: run_defs)
  from c4 [where sv = all_valid_services
      and ticks = "[(all_valid_services, [CmdMsg 1]), (all_valid_services, [])]" and c = 0,
      THEN conjunct2, THEN conjunct2, THEN conjunct2, THEN conjunct2, THEN conjunct2,
      THEN conjunct2, THEN conjunct2, THEN conjunct2, THEN conjunct1] r9
  have "(0::int) = 0 \<or> (0::int) = 1" by (rule mp)
  have h10: "spatial_reasoner all_valid_services (zero_Pose2D, [Fin 80, Fin 80])
        = Some (replicate (NZ * RES * RES) (Fin 0))
      \<and> NZ * RES * RES \<le> length (replicate (NZ * RES * RES) (Fin 0))"
    by (simp add: all_valid_services_def fixed_services_def)
  from c4 [where sv = all_valid_services
      and ticks = "[(all_valid_services, [CmdMsg 1]), (all_valid_services, [])]"
      and ms = "replicate (NZ * RES * RES) (Fin 0)",
      THEN conjunct2, THEN conjunct2, THEN conjunct2, THEN conjunct2, THEN conjunct2,
      THEN conjunct2, THEN conjunct2, THEN conjunct2, THEN conjunct2] h10
  have r10: "main lm all_valid_services
        [(all_valid_services, [CmdMsg 1]), (all_valid_services, [])]
       = main_loop lm [(all_valid_services, [CmdMsg 1]), (all_valid_services, [])]
           ((assign_regions initial)
              \<lparr>matrices := take (NZ * RES * RES) (replicate (NZ * RES * RES) (Fin 0))\<rparr>)"
    by (rule mp)
  from r1 r2 r3 r4 r5 r6 r7 r8 r9 r10
  show "exit_status (main lm failing_services [(all_valid_services, [CmdMsg 1])]) = Some 1
   \<and> published (main lm failing_services [(all_valid_services, [CmdMsg 1])]) = []
   \<and> exit_status (main_loop lm [(failing_services, [CmdMsg 2]), (all_valid_services, [])]
        (initial\<lparr>cmd := 1\<rparr>)) = Some 1
   \<and> published (main_loop lm [(failing_services, [CmdMsg 2]), (all_valid_services, [])]
        (initial\<lparr>cmd := 1\<rparr>)) = []
   \<and> exit_status (main_loop lm [(pert_failing_services, [CmdMsg 2]), (all_valid_services, [])]
        (initial\<lparr>cmd := 1\<rparr>)) = Some 1
   \<and> published (main_loop lm [(pert_failing_services, [CmdMsg 2]), (all_valid_services, [])]
        (initial\<lparr>cmd := 1\<rparr>)) = []
   \<and> exit_status (main_loop lm [(mont_failing_services, [CmdMsg 2]), (all_valid_services, [])]
        (initial\<lparr>cmd := 1\<rparr>)) = Some 1
   \<and> published (main_loop lm [(mont_failing_services, [CmdMsg 2]), (all_valid_services, [])]
        (initial\<lparr>cmd := 1\<rparr>)) = []
   \<and> exit_status (main_loop lm [(rrts_failing_services, [CmdMsg 2]), (all_valid_services, [])]
        (initial\<lparr>cmd := 1\<rparr>)) = Some 1
   \<and> published (main_loop lm [(rrts_failing_services, [CmdMsg 2]), (all_valid_services, [])]
        (initial\<lparr>cmd := 1\<rparr>)) = []
   \<and> (\<exists>s'. look lm failing_services (initial\<lparr>cmd := 1\<rparr>) = Exit 1 s' \<and> pubs s' = []
          \<and> state s' = 0)
   \<and> (\<exists>s'. loop_body lm rrts_failing_services (initial\<lparr>cmd := 1\<rparr>) = Exit 1 s'
          \<and> pubs s' = [] \<and> state s' = 3)
   \<and> exit_status (main lm all_valid_services
         [(all_valid_services, [CmdMsg 1]), (mont_failing_services, [CmdMsg 2]),
          (all_valid_services, [])]) = Some 1
   \<and> published (main lm all_valid_services
         [(all_valid_services, [CmdMsg 1]), (mont_failing_services, [CmdMsg 2]),
          (all_valid_services, [])]) = []
   \<and> exit_status (main lm all_valid_services
         [(all_valid_services, [CmdMsg 1]), (all_valid_services, [])]) = Some 0
   \<and> main lm all_valid_services [(all_valid_services, [CmdMsg 1]), (all_valid_services, [])]
       = main_loop lm [(all_valid_services, [CmdMsg 1]), (all_valid_services, [])]
           ((assign_regions initial)
              \<lparr>matrices := take (NZ * RES * RES) (replicate (NZ * RES * RES) (Fin 0))\<rparr>)"
    by (intro conjI) (elim conjE, assumption)+
qed

text \<open>
  C5. The claim: an activation that ends with an invalid result at any stage has reset the
  pipeline state to Idle. In the run below the activation receives the goal (NaN, 0),
  which is not valid, and ends with the pipeline state PathPublished (4), the command tag
  cleared, and a path and the turn command NaN published.
\<close>

theorem C5_nan_goal_not_reset:
  "\<not> valid_point (point NaN (Fin 0))
   \<and> map_option (\<lambda>s. (goal s, state s, cmd s, pubs s))
       (end_state (main lm nan_goal_services
          [(nan_goal_services, [CmdMsg 1]), (nan_goal_services, [])]))
     = Some (point NaN (Fin 0), 4, 0, [PathPub [], MiroPub NaN])"
  by (simp add: valid_point_def run_defs)

text \<open>
  C6. The claim, as stated, promises the delivered coordinate multiplied by exactly 100.
  The product is a double: for the delivered coordinate 0.07, the double
  \<open>1261007895663739 / 2\<^sup>5\<^sup>4\<close>, the stored value is \<open>7881299347898369 / 2\<^sup>5\<^sup>0\<close>, which is
  not 100 times the delivered value; for the delivered coordinate \<open>2\<^sup>1\<^sup>0\<^sup>2\<^sup>3\<close> the stored value
  is \<open>+\<infinity>\<close>.
\<close>

theorem C6_rounded_product_counterexample:
  "is_double_value (1261007895663739 / 2 ^ 54)
   \<and> px (robot (getRobotPose \<lparr>px = Fin (1261007895663739 / 2 ^ 54), py = Fin 0, theta = Fin 0\<rparr>
                  initial))
     = Fin (7881299347898369 / 2 ^ 50)
   \<and> (7881299347898369 / 2 ^ 50 :: real) \<noteq> 100 * (1261007895663739 / 2 ^ 54)
   \<and> is_double_value (2 ^ 1023)
   \<and> px (robot (getRobotPose \<lparr>px = Fin (2 ^ 1023), py = Fin 0, theta = Fin 0\<rparr> initial)) = PInf"
proof (intro conjI)
  show "is_double_value (1261007895663739 / 2 ^ 54)" by (rule is_double_value_7)
  show "px (robot (getRobotPose \<lparr>px = Fin (1261007895663739 / 2 ^ 54), py = Fin 0, theta = Fin 0\<rparr>
                  initial))
     = Fin (7881299347898369 / 2 ^ 50)"
    using round_double_7 by (simp add: getRobotPose_def arith_defs)
  show "(7881299347898369 / 2 ^ 50 :: real) \<noteq> 100 * (1261007895663739 / 2 ^ 54)" by simp
  show "is_double_value (2 ^ 1023)" by (rule is_double_value_max)
  show "px (robot (getRobotPose \<lparr>px = Fin (2 ^ 1023), py = Fin 0, theta = Fin 0\<rparr> initial)) = PInf"
    using round_double_overflow by (simp add: getRobotPose_def arith_defs)
qed

text \<open>
  C6, amended. Each ingestion callback stores, for every delivered position coordinate
  \<open>x\<close>, the double product \<open>100 * x\<close>, and stores theta, respectively the orientation, as
  delivered; nothing else of the state changes. For a finite nonzero \<open>x\<close> the product is
  the exact product rounded to the nearest double, ties to even, and \<open>\<plusminus>\<infinity>\<close> when that
  exceeds the range; it is the exact product whenever the exact product is a double. A
  zero, an infinity and NaN are stored as delivered.
\<close>

theorem C6_ingestion_scales_by_100:
  "robot (getRobotPose p s) =
     \<lparr>px = dmul (Fin 100) (px p), py = dmul (Fin 100) (py p), theta = theta p\<rparr>
   \<and> obs (getObstaclePose p s) =
     \<lparr>px = dmul (Fin 100) (px p), py = dmul (Fin 100) (py p), theta = theta p\<rparr>
   \<and> position (gesture (getGesture g s)) =
     \<lparr>vx = dmul (Fin 100) (vx (position g)), vy = dmul (Fin 100) (vy (position g)),
      vz = dmul (Fin 100) (vz (position g))\<rparr>
   \<and> orientation (gesture (getGesture g s)) = orientation g
   \<and> getRobotPose p s = s\<lparr>robot := robot (getRobotPose p s)\<rparr>
   \<and> getObstaclePose p s = s\<lparr>obs := obs (getObstaclePose p s)\<rparr>
   \<and> getGesture g s = s\<lparr>gesture := gesture (getGesture g s)\<rparr>
   \<and> (r \<noteq> 0 \<longrightarrow> dmul (Fin 100) (Fin r) = round_double (100 * r))
   \<and> (r \<noteq> 0 \<and> is_double_value (100 * r) \<longrightarrow> dmul (Fin 100) (Fin r) = Fin (100 * r))
   \<and> dmul (Fin 100) (Fin 0) = Fin 0 \<and> dmul (Fin 100) NegZero = NegZero
   \<and> dmul (Fin 100) PInf = PInf \<and> dmul (Fin 100) NInf = NInf \<and> dmul (Fin 100) NaN = NaN"
proof -
  have a: "r \<noteq> 0 \<longrightarrow> dmul (Fin 100) (Fin r) = round_double (100 * r)"
    by (simp add: dmul_def is_zero_def is_inf_def)
  have b: "r \<noteq> 0 \<and> is_double_value (100 * r) \<longrightarrow> dmul (Fin 100) (Fin r) = Fin (100 * r)"
  proof
    assume h: "r \<noteq> 0 \<and> is_double_value (100 * r)"
    then have "round_double (100 * r) = Fin (100 * r)" by (intro round_double_exact) simp_all
    with a h show "dmul (Fin 100) (Fin r) = Fin (100 * r)" by simp
  qed
  have c: "dmul (Fin 100) (Fin 0) = Fin 0 \<and> dmul (Fin 100) NegZero = NegZero
   \<and> dmul (Fin 100) PInf = PInf \<and> dmul (Fin 100) NInf = NInf \<and> dmul (Fin 100) NaN = NaN"
    by (simp add: dmul_def is_zero_def is_inf_def)
  from a b c show ?thesis
    by (simp add: getRobotPose_def getObstaclePose_def getGesture_def double_of_int_def)
qed

theorem C6_ingestion_scales_by_100_witness:
  "robot (getRobotPose \<lparr>px = Fin 1, py = Fin 2, theta = Fin 3\<rparr> initial)
     = \<lparr>px = Fin 100, py = Fin 200, theta = Fin 3\<rparr>
   \<and> obs (getObstaclePose
        \<lparr>px = Fin (1261007895663739 / 2 ^ 54), py = NegZero, theta = NaN\<rparr> initial)
     = \<lparr>px = Fin (7881299347898369 / 2 ^ 50), py = NegZero, theta = NaN\<rparr>"
proof -
  note c6 = C6_ingestion_scales_by_100 [where s = initial]
  note at1 = c6 [where p = "\<lparr>px = Fin 1, py = Fin 2, theta = Fin 3\<rparr>"]
  note at2 = c6 [where p = "\<lparr>px = Fin (1261007895663739 / 2 ^ 54), py = NegZero, theta = NaN\<rparr>"]
  have d1: "(1::real) \<noteq> 0 \<and> is_double_value (100 * 1)"
    using is_double_value_int [of 100] by simp
  have d2: "(2::real) \<noteq> 0 \<and> is_double_value (100 * 2)"
    using is_double_value_int [of 200] by simp
  have d3: "(1261007895663739 / 2 ^ 54 :: real) \<noteq> 0" by simp
  from at1 [where r = 1, THEN conjunct2, THEN conjunct2, THEN conjunct2, THEN conjunct2,
      THEN conjunct2, THEN conjunct2, THEN conjunct2, THEN conjunct2, THEN conjunct1] d1
  have m1: "dmul (Fin 100) (Fin 1) = Fin (100 * 1)" by (rule mp)
  from at1 [where r = 2, THEN conjunct2, THEN conjunct2, THEN conjunct2, THEN conjunct2,
      THEN conjunct2, THEN conjunct2, THEN conjunct2, THEN conjunct2, THEN conjunct1] d2
  have m2: "dmul (Fin 100) (Fin 2) = Fin (100 * 2)" by (rule mp)
  from at2 [where r = "1261007895663739 / 2 ^ 54", THEN conjunct2, THEN conjunct2,
      THEN conjunct2, THEN conjunct2, THEN conjunct2, THEN conjunct2, THEN conjunct2,
      THEN conjunct1] d3
  have "dmul (Fin 100) (Fin (1261007895663739 / 2 ^ 54))
      = round_double (100 * (1261007895663739 / 2 ^ 54))"
    by (rule mp)
  with round_double_7
  have m3: "dmul (Fin 100) (Fin (1261007895663739 / 2 ^ 54)) = Fin (7881299347898369 / 2 ^ 50)"
    by simp
  note m4 = at2 [THEN conjunct2, THEN conjunct2, THEN conjunct2, THEN conjunct2, THEN conjunct2,
      THEN conjunct2, THEN conjunct2, THEN conjunct2, THEN conjunct2, THEN conjunct2,
      THEN conjunct1]
  from at1 [THEN conjunct1] m1 m2
  have a: "robot (getRobotPose \<lparr>px = Fin 1, py = Fin 2, theta = Fin 3\<rparr> initial)
     = \<lparr>px = Fin 100, py = Fin 200, theta = Fin 3\<rparr>"
    by simp
  from at2 [THEN conjunct2, THEN conjunct1] m3 m4
  have b: "obs (getObstaclePose
        \<lparr>px = Fin (1261007895663739 / 2 ^ 54), py = NegZero, theta = NaN\<rparr> initial)
     = \<lparr>px = Fin (7881299347898369 / 2 ^ 50), py = NegZero, theta = NaN\<rparr>"
    by simp
  from a b show ?thesis by (rule conjI)
qed

text \<open>
  C7. When the pertinence mapper answers a landscape of at least \<open>RES * RES\<close> scalars,
  the pipeline state after the stage is LandscapeValid (2) if the first scalar is finite
  and Idle (0) otherwise: the state is a function of the first scalar alone.
\<close>

theorem C7_landscape_gate:
  assumes "state s = 1"
    and "pertinence_mapper sv
           (target s, srv_pert_matrices s @ take (RES * RES * NZ) (matrices s)) = Some ls"
    and "RES * RES \<le> length ls"
  shows "\<exists>s'. stage_pert sv s = Continue s' \<and> landscape s' = take (RES * RES) ls
           \<and> state s' = (if isfinite (ls ! 0) then 2 else 0)"
  using assms by (simp add: stage_defs RES_def)

theorem C7_landscape_gate_witness:
  "(\<exists>s'. stage_pert (fixed_services None (Some (Fin 0 # replicate 1599 NaN)) None None)
            (initial\<lparr>state := 1\<rparr>) = Continue s' \<and> state s' = 2)
   \<and> (\<exists>s'. stage_pert (fixed_services None (Some (NaN # replicate 1599 (Fin 0))) None None)
            (initial\<lparr>state := 1\<rparr>) = Continue s' \<and> state s' = 0)"
proof -
  have p: "pertinence_mapper (fixed_services None (Some ls) None None)
             (target (initial\<lparr>state := 1\<rparr>),
              srv_pert_matrices (initial\<lparr>state := 1\<rparr>)
                @ take (RES * RES * NZ) (matrices (initial\<lparr>state := 1\<rparr>))) = Some ls" for ls
    by (simp add: fixed_services_def)
  have s: "state (initial\<lparr>state := 1\<rparr>) = 1" by simp
  have a: "RES * RES \<le> length (Fin 0 # replicate 1599 NaN)" by (simp add: RES_def)
  have b: "RES * RES \<le> length (NaN # replicate 1599 (Fin 0))" by (simp add: RES_def)
  from C7_landscape_gate [OF s p a] C7_landscape_gate [OF s p b]
  show ?thesis by simp blast
qed

text \<open>
  C8. The claim, as stated, promises a turn command in \<open>(-\<pi>, \<pi>]\<close> always. The robot
  pose is stored as delivered, and with a robot heading NaN the activation below
  reaches PathPublished and emits NaN, whatever the C library computes elsewhere.
\<close>

theorem C8_nan_heading_counterexample:
  "(\<forall>lm. published
      (main lm all_valid_services
         [(all_valid_services, [RobotMsg \<lparr>px = Fin 0, py = Fin 0, theta = NaN\<rparr>, CmdMsg 1]),
          (all_valid_services, [])])
      = [PathPub [], MiroPub NaN])
   \<and> \<not> in_heading_range NaN"
  by (simp add: run_defs)

text \<open>
  C8, amended. An activation that completes has published, after what was published
  before, the path and then the turn command if it ended in PathPublished, and nothing
  otherwise; an activation that exits has published nothing. The turn command is computed
  from the goal and the robot pose in double arithmetic with the C library:
  \<^verbatim>\<open>atan2(sin(d), cos(d))\<close> with \<^verbatim>\<open>d = atan2(goal.y - robot.y, goal.x - robot.x) - robot.theta\<close>.
  It is NaN when \<open>d\<close> is not finite, in particular when a coordinate of the goal or of the
  robot pose is NaN; in every case it is NaN, a zero, or a value returned by the library's
  \<^verbatim>\<open>atan2\<close>. For the goal (100, 0) seen from the robot pose (0, 0, 0) it is exactly 0, with
  any library; for the goal (0, 100) it is what the library returns for
  \<^verbatim>\<open>atan2(sin(h), cos(h))\<close> with \<^verbatim>\<open>h = atan2(100, 0) - 0\<close>. The closing conjuncts are about
  the contract in exact real arithmetic, not about the emitted double: there the
  normalised angle is a number of \<open>(-\<pi>, \<pi>]\<close>, and the two examples give 0 and \<open>\<pi>/2\<close>.
\<close>

theorem C8_heading:
  "(look lm sv s = Continue s' \<longrightarrow>
      robot s' = robot s \<and>
      pubs s' = pubs s @ (if state s' = 4
                          then [PathPub (rrtPath s'), MiroPub (turn_angle lm (goal s') (robot s'))]
                          else []))
   \<and> (look lm sv s = Exit c s' \<longrightarrow> pubs s' = pubs s)
   \<and> turn_angle lm g r =
       datan2 lm
         (dsin lm (dsub (datan2 lm (dsub (py g) (py r)) (dsub (px g) (px r))) (theta r)))
         (dcos lm (dsub (datan2 lm (dsub (py g) (py r)) (dsub (px g) (px r))) (theta r)))
   \<and> (\<not> isfinite (dsub (datan2 lm (dsub (py g) (py r)) (dsub (px g) (px r))) (theta r))
        \<longrightarrow> turn_angle lm g r = NaN)
   \<and> (theta r = NaN \<or> px r = NaN \<or> py r = NaN \<or> px g = NaN \<or> py g = NaN
        \<longrightarrow> turn_angle lm g r = NaN)
   \<and> (turn_angle lm g r = NaN \<or> is_zero (turn_angle lm g r)
        \<or> (\<exists>y x. turn_angle lm g r = m_atan2 lm y x))
   \<and> turn_angle lm (point (Fin 100) (Fin 0)) zero_Pose2D = Fin 0
   \<and> turn_angle lm (point (Fin 0) (Fin 100)) zero_Pose2D =
       datan2 lm (dsin lm (dsub (m_atan2 lm (Fin 100) (Fin 0)) (Fin 0)))
                 (dcos lm (dsub (m_atan2 lm (Fin 100) (Fin 0)) (Fin 0)))
   \<and> - pi < normalize_angle a \<and> normalize_angle a \<le> pi
   \<and> computeHeadingDelta (100, 0) (0, 0, 0) = 0
   \<and> computeHeadingDelta (0, 100) (0, 0, 0) = pi / 2"
proof (intro conjI impI)
  assume l: "look lm sv s = Continue s'"
  then show "robot s' = robot s" by (rule look_robot)
  from look_pubs [OF l]
  show "pubs s' = pubs s @ (if state s' = 4
                          then [PathPub (rrtPath s'), MiroPub (turn_angle lm (goal s') (robot s'))]
                          else [])" .
next
  assume "look lm sv s = Exit c s'"
  from look_Exit_trace [OF this] show "pubs s' = pubs s" by simp
next
  show "turn_angle lm g r =
       datan2 lm
         (dsin lm (dsub (datan2 lm (dsub (py g) (py r)) (dsub (px g) (px r))) (theta r)))
         (dcos lm (dsub (datan2 lm (dsub (py g) (py r)) (dsub (px g) (px r))) (theta r)))"
    by (simp add: turn_angle_def Let_def)
next
  assume "\<not> isfinite (dsub (datan2 lm (dsub (py g) (py r)) (dsub (px g) (px r))) (theta r))"
  then show "turn_angle lm g r = NaN" by (rule turn_angle_not_finite)
next
  assume "theta r = NaN \<or> px r = NaN \<or> py r = NaN \<or> px g = NaN \<or> py g = NaN"
  then show "turn_angle lm g r = NaN" by (rule turn_angle_NaN)
next
  show "turn_angle lm g r = NaN \<or> is_zero (turn_angle lm g r)
        \<or> (\<exists>y x. turn_angle lm g r = m_atan2 lm y x)" by (rule turn_angle_origin)
  show "turn_angle lm (point (Fin 100) (Fin 0)) zero_Pose2D = Fin 0" by (rule turn_angle_ahead)
  show "turn_angle lm (point (Fin 0) (Fin 100)) zero_Pose2D =
       datan2 lm (dsin lm (dsub (m_atan2 lm (Fin 100) (Fin 0)) (Fin 0)))
                 (dcos lm (dsub (m_atan2 lm (Fin 100) (Fin 0)) (Fin 0)))"
    by (rule turn_angle_left)
  from atan2_range show "- pi < normalize_angle a" and "normalize_angle a \<le> pi"
    by (simp_all add: normalize_angle_def)
  from heading_examples show "computeHeadingDelta (100, 0) (0, 0, 0) = 0"
    and "computeHeadingDelta (0, 100) (0, 0, 0) = pi / 2" by simp_all
qed

theorem C8_heading_witness:
  "\<forall>lm. (\<exists>s'. look lm all_valid_services initial = Continue s' \<and> state s' = 4
            \<and> pubs s' = [PathPub [], MiroPub (Fin 0)])
     \<and> published (look lm failing_services initial) = []
     \<and> turn_angle lm (point (Fin 100) (Fin 0)) \<lparr>px = Fin 0, py = Fin 0, theta = NaN\<rparr> = NaN
     \<and> turn_angle lm (point (Fin 100) (Fin 0)) \<lparr>px = Fin 0, py = Fin 0, theta = PInf\<rparr> = NaN"
proof (rule allI)
  fix lm
  have "\<exists>s'. look lm all_valid_services initial = Continue s' \<and> state s' = 4
        \<and> goal s' = point (Fin 100) (Fin 0) \<and> robot s' = zero_Pose2D \<and> rrtPath s' = []"
    by (simp add: look_def stage_defs all_valid_services_def fixed_services_def initial_def
          point_def out_of_bounds_def arith_defs HSIZE_def VSIZE_def RES_def NZ_def
          rrts_request_def)
  then have 1: "\<exists>s'. look lm all_valid_services initial = Continue s' \<and> state s' = 4
            \<and> pubs s' = [PathPub [], MiroPub (Fin 0)]"
  proof (elim exE conjE)
    fix s'
    assume l: "look lm all_valid_services initial = Continue s'" and st: "state s' = 4"
      and g: "goal s' = point (Fin 100) (Fin 0)" and r: "robot s' = zero_Pose2D"
      and p: "rrtPath s' = []"
    note c8 = C8_heading [where lm = lm and sv = all_valid_services and s = initial and s' = s']
    from c8 [THEN conjunct1] l
    have "robot s' = robot initial \<and>
      pubs s' = pubs initial @ (if state s' = 4
                          then [PathPub (rrtPath s'), MiroPub (turn_angle lm (goal s') (robot s'))]
                          else [])"
      by (rule mp)
    with st g r p
    have "pubs s' = [PathPub [], MiroPub (turn_angle lm (point (Fin 100) (Fin 0)) zero_Pose2D)]"
      by (simp add: initial_def)
    with c8 [THEN conjunct2, THEN conjunct2, THEN conjunct2, THEN conjunct2, THEN conjunct2,
        THEN conjunct2, THEN conjunct1]
    have "pubs s' = [PathPub [], MiroPub (Fin 0)]" by simp
    with l st show ?thesis by (intro exI [of _ s'] conjI)
  qed
  have "\<exists>s'. look lm failing_services initial = Exit 1 s'"
    by (simp add: look_def stage_defs failing_services_def)
  then obtain s2 where l2: "look lm failing_services initial = Exit 1 s2" ..
  from C8_heading [where lm = lm and sv = failing_services and s = initial and c = 1
      and s' = s2, THEN conjunct2, THEN conjunct1] l2
  have "pubs s2 = pubs initial" by (rule mp)
  with l2 have 2: "published (look lm failing_services initial) = []"
    by (simp add: initial_def)
  have n: "theta \<lparr>px = Fin 0, py = Fin 0, theta = NaN\<rparr> = NaN
      \<or> px \<lparr>px = Fin 0, py = Fin 0, theta = NaN\<rparr> = NaN
      \<or> py \<lparr>px = Fin 0, py = Fin 0, theta = NaN\<rparr> = NaN
      \<or> px (point (Fin 100) (Fin 0)) = NaN \<or> py (point (Fin 100) (Fin 0)) = NaN"
    by simp
  from C8_heading [where lm = lm and g = "point (Fin 100) (Fin 0)"
      and r = "\<lparr>px = Fin 0, py = Fin 0, theta = NaN\<rparr>", THEN conjunct2, THEN conjunct2,
      THEN conjunct2, THEN conjunct2, THEN conjunct1] n
  have 3: "turn_angle lm (point (Fin 100) (Fin 0)) \<lparr>px = Fin 0, py = Fin 0, theta = NaN\<rparr> = NaN"
    by (rule mp)
  have i: "\<not> isfinite (dsub (datan2 lm
        (dsub (py (point (Fin 100) (Fin 0))) (py \<lparr>px = Fin 0, py = Fin 0, theta = PInf\<rparr>))
        (dsub (px (point (Fin 100) (Fin 0))) (px \<lparr>px = Fin 0, py = Fin 0, theta = PInf\<rparr>)))
        (theta \<lparr>px = Fin 0, py = Fin 0, theta = PInf\<rparr>))"
    by (simp add: point_def arith_defs round_double_100)
  from C8_heading [where lm = lm and g = "point (Fin 100) (Fin 0)"
      and r = "\<lparr>px = Fin 0, py = Fin 0, theta = PInf\<rparr>", THEN conjunct2, THEN conjunct2,
      THEN conjunct2, THEN conjunct1] i
  have 4: "turn_angle lm (point (Fin 100) (Fin 0)) \<lparr>px = Fin 0, py = Fin 0, theta = PInf\<rparr> = NaN"
    by (rule mp)
  from 1 2 3 4
  show "(\<exists>s'. look lm all_valid_services initial = Continue s' \<and> state s' = 4
            \<and> pubs s' = [PathPub [], MiroPub (Fin 0)])
     \<and> published (look lm failing_services initial) = []
     \<and> turn_angle lm (point (Fin 100) (Fin 0)) \<lparr>px = Fin 0, py = Fin 0, theta = NaN\<rparr> = NaN
     \<and> turn_angle lm (point (Fin 100) (Fin 0)) \<lparr>px = Fin 0, py = Fin 0, theta = PInf\<rparr> = NaN"
    by (intro conjI)
qed

text \<open>
  C9. The claim, as stated, promises two publishes, true then false, for "go" then "stop"
  issued in sequence. When both are delivered by the same \<^verbatim>\<open>ros::spinOnce()\<close> the second
  callback overwrites the tag of the first, and the run below publishes false only.
\<close>

theorem C9_same_spin_counterexample:
  "\<forall>lm. published (main lm all_valid_services
        [(all_valid_services, [CmdMsg 2, CmdMsg 3]), (all_valid_services, [])])
     = [FlagPub False]"
  by (simp add: run_defs)

text \<open>
  C9, amended. With command tag 2 an iteration sets the enable flag, publishes true and
  clears the tag; with tag 3 it resets the flag, publishes false and clears the tag. "go"
  followed by "stop" gives exactly the two publishes true, false when "stop" is delivered
  after the iteration that handled "go"; of two tags delivered by the same
  \<^verbatim>\<open>ros::spinOnce()\<close> the later one stays, so "go" and "stop" delivered together give the
  single publish false. With a tag other than 1, 2 and 3 an iteration changes nothing and
  publishes nothing.
\<close>

theorem C9_go_stop:
  "(cmd s = 2 \<longrightarrow>
      loop_body lm sv s = Continue (s\<lparr>enable := True, pubs := pubs s @ [FlagPub True], cmd := 0\<rparr>))
   \<and> (cmd s = 3 \<longrightarrow>
      loop_body lm sv s = Continue (s\<lparr>enable := False, pubs := pubs s @ [FlagPub False], cmd := 0\<rparr>))
   \<and> (cmd s = 2 \<longrightarrow>
      main_loop lm [(sv, [CmdMsg 3]), (sv2, [])] s
        = Exit 0 (s\<lparr>enable := False, pubs := pubs s @ [FlagPub True, FlagPub False], cmd := 0\<rparr>))
   \<and> cmd (spinOnce [CmdMsg a, CmdMsg b] s) = b
   \<and> (cmd s \<noteq> 1 \<and> cmd s \<noteq> 2 \<and> cmd s \<noteq> 3 \<longrightarrow>
      main_loop lm [(sv, [CmdMsg 2, CmdMsg 3]), (sv2, [])] s
        = Exit 0 (s\<lparr>enable := False, pubs := pubs s @ [FlagPub False], cmd := 0\<rparr>))
   \<and> (cmd s \<noteq> 1 \<and> cmd s \<noteq> 2 \<and> cmd s \<noteq> 3 \<longrightarrow> loop_body lm sv s = Continue s)"
  by (simp add: loop_body_def go_def stop_def getCmd_def Let_def)

theorem C9_go_stop_witness:
  "\<forall>lm. published (main_loop lm [(all_valid_services, [CmdMsg 3]), (all_valid_services, [])]
                (initial\<lparr>cmd := 2\<rparr>)) = [FlagPub True, FlagPub False]
   \<and> published (main_loop lm [(all_valid_services, [CmdMsg 2, CmdMsg 3]), (all_valid_services, [])]
                initial) = [FlagPub False]
   \<and> loop_body lm all_valid_services (initial\<lparr>cmd := 2\<rparr>)
       = Continue (initial\<lparr>enable := True, pubs := [FlagPub True], cmd := 0\<rparr>)
   \<and> loop_body lm all_valid_services (initial\<lparr>cmd := 3\<rparr>)
       = Continue (initial\<lparr>enable := False, pubs := [FlagPub False], cmd := 0\<rparr>)
   \<and> loop_body lm all_valid_services (initial\<lparr>cmd := 99\<rparr>) = Continue (initial\<lparr>cmd := 99\<rparr>)
   \<and> published (main lm all_valid_services
        [(all_valid_services, [CmdMsg 2]), (all_valid_services, [CmdMsg 3]),
         (all_valid_services, [CmdMsg 99]), (all_valid_services, [])])
      = [FlagPub True, FlagPub False]"
proof (rule allI)
  fix lm
  have a: "cmd (initial\<lparr>cmd := 2\<rparr>) = 2" by simp
  have b: "cmd (initial\<lparr>cmd := 99\<rparr>) \<noteq> 1 \<and> cmd (initial\<lparr>cmd := 99\<rparr>) \<noteq> 2
           \<and> cmd (initial\<lparr>cmd := 99\<rparr>) \<noteq> 3" by simp
  have c: "cmd initial \<noteq> 1 \<and> cmd initial \<noteq> 2 \<and> cmd initial \<noteq> 3" by (simp add: initial_def)
  have d: "cmd (initial\<lparr>cmd := 3\<rparr>) = 3" by simp
  note c9 = C9_go_stop [where lm = lm and sv = all_valid_services and ?sv2.0 = all_valid_services]
  from c9 [where s = "initial\<lparr>cmd := 2\<rparr>", THEN conjunct2, THEN conjunct2, THEN conjunct1] a
  have 1: "published (main_loop lm [(all_valid_services, [CmdMsg 3]), (all_valid_services, [])]
                (initial\<lparr>cmd := 2\<rparr>)) = [FlagPub True, FlagPub False]"
    by (simp add: initial_def)
  from c9 [where s = initial, THEN conjunct2, THEN conjunct2, THEN conjunct2, THEN conjunct2,
      THEN conjunct1] c
  have 2: "published (main_loop lm [(all_valid_services, [CmdMsg 2, CmdMsg 3]),
                (all_valid_services, [])] initial) = [FlagPub False]"
    by (simp add: initial_def)
  from c9 [where s = "initial\<lparr>cmd := 2\<rparr>", THEN conjunct1] a
  have 0: "loop_body lm all_valid_services (initial\<lparr>cmd := 2\<rparr>)
       = Continue (initial\<lparr>enable := True, pubs := [FlagPub True], cmd := 0\<rparr>)"
    by (simp add: initial_def)
  from c9 [where s = "initial\<lparr>cmd := 3\<rparr>", THEN conjunct2, THEN conjunct1] d
  have 3: "loop_body lm all_valid_services (initial\<lparr>cmd := 3\<rparr>)
       = Continue (initial\<lparr>enable := False, pubs := [FlagPub False], cmd := 0\<rparr>)"
    by (simp add: initial_def)
  from c9 [where s = "initial\<lparr>cmd := 99\<rparr>", THEN conjunct2, THEN conjunct2, THEN conjunct2,
      THEN conjunct2, THEN conjunct2] b
  have 4: "loop_body lm all_valid_services (initial\<lparr>cmd := 99\<rparr>) = Continue (initial\<lparr>cmd := 99\<rparr>)"
    by (rule mp)
  have 5: "published (main lm all_valid_services
        [(all_valid_services, [CmdMsg 2]), (all_valid_services, [CmdMsg 3]),
         (all_valid_services, [CmdMsg 99]), (all_valid_services, [])])
      = [FlagPub True, FlagPub False]"
    by (simp add: run_defs)
  from 1 2 0 3 4 5 show "published (main_loop lm [(all_valid_services, [CmdMsg 3]), (all_valid_services, [])]
                (initial\<lparr>cmd := 2\<rparr>)) = [FlagPub True, FlagPub False]
   \<and> published (main_loop lm [(all_valid_services, [CmdMsg 2, CmdMsg 3]), (all_valid_services, [])]
                initial) = [FlagPub False]
   \<and> loop_body lm all_valid_services (initial\<lparr>cmd := 2\<rparr>)
       = Continue (initial\<lparr>enable := True, pubs := [FlagPub True], cmd := 0\<rparr>)
   \<and> loop_body lm all_valid_services (initial\<lparr>cmd := 3\<rparr>)
       = Continue (initial\<lparr>enable := False, pubs := [FlagPub False], cmd := 0\<rparr>)
   \<and> loop_body lm all_valid_services (initial\<lparr>cmd := 99\<rparr>) = Continue (initial\<lparr>cmd := 99\<rparr>)
   \<and> published (main lm all_valid_services
        [(all_valid_services, [CmdMsg 2]), (all_valid_services, [CmdMsg 3]),
         (all_valid_services, [CmdMsg 99]), (all_valid_services, [])])
      = [FlagPub True, FlagPub False]"
    by (intro conjI)
qed

text \<open>
  C10. In every state in which \<^verbatim>\<open>main\<close> ends, whatever the services answered and
  whatever was delivered, the obstacle list of the RRT* request, and of every request
  that was sent to the RRT* service, is the single box centred at (0, 0, 0) of size
  80 by 80 by 0. Every state the loop passes through is the last state of a shorter run,
  so this holds throughout a run.
\<close>

theorem C10_obstacle_region_fixed:
  assumes "end_state (main lm sv ticks) = Some s'"
  shows "Obstacles (srv_rrts s') = [zero_obstacle_region]
         \<and> (\<forall>r \<in> set (rrts_calls s'). Obstacles r = [zero_obstacle_region])
         \<and> zero_obstacle_region =
             \<lparr>center_x = Fin 0, center_y = Fin 0, center_z = Fin 0,
              size_x = Fin 80, size_y = Fin 80, size_z = Fin 0\<rparr>"
proof -
  have "obstacles_fixed s'"
  proof (cases "spatial_reasoner sv (zero_Pose2D, [Fin 80, Fin 80])")
    case None
    with assms assign_regions_initial(1) show ?thesis by (simp add: main_cases)
  next
    case (Some ms)
    with assms
    have "end_state (main_loop lm ticks
            ((assign_regions initial)\<lparr>matrices := take (NZ * RES * RES) ms\<rparr>)) = Some s'"
      by (simp add: main_cases split: if_splits)
    with assign_regions_initial(2) show ?thesis by (rule main_loop_obstacles_fixed)
  qed
  then show ?thesis
    by (simp add: obstacles_fixed_def list_all_iff) (simp add: zero_obstacle_region_def)
qed

theorem C10_obstacle_region_fixed_witness:
  "\<forall>lm. \<exists>s'. end_state (main lm all_valid_services
            [(all_valid_services, [ObstacleMsg \<lparr>px = Fin 1, py = Fin 2, theta = Fin 0\<rparr>, CmdMsg 1]),
             (all_valid_services, [])]) = Some s'
        \<and> obs s' = \<lparr>px = Fin 100, py = Fin 200, theta = Fin 0\<rparr>
        \<and> map Obstacles (rrts_calls s') = [[zero_obstacle_region]]"
proof (rule allI)
  fix lm
  have "\<exists>s'. main lm all_valid_services
            [(all_valid_services, [ObstacleMsg \<lparr>px = Fin 1, py = Fin 2, theta = Fin 0\<rparr>, CmdMsg 1]),
             (all_valid_services, [])] = Exit 0 s'
        \<and> obs s' = \<lparr>px = Fin 100, py = Fin 200, theta = Fin 0\<rparr>
        \<and> length (rrts_calls s') = 1"
    by (simp add: run_defs)
  then show "\<exists>s'. end_state (main lm all_valid_services
            [(all_valid_services, [ObstacleMsg \<lparr>px = Fin 1, py = Fin 2, theta = Fin 0\<rparr>, CmdMsg 1]),
             (all_valid_services, [])]) = Some s'
        \<and> obs s' = \<lparr>px = Fin 100, py = Fin 200, theta = Fin 0\<rparr>
        \<and> map Obstacles (rrts_calls s') = [[zero_obstacle_region]]"
  proof (elim exE conjE)
    fix s'
    assume m: "main lm all_valid_services
            [(all_valid_services, [ObstacleMsg \<lparr>px = Fin 1, py = Fin 2, theta = Fin 0\<rparr>, CmdMsg 1]),
             (all_valid_services, [])] = Exit 0 s'"
      and o: "obs s' = \<lparr>px = Fin 100, py = Fin 200, theta = Fin 0\<rparr>"
      and n: "length (rrts_calls s') = 1"
    from m have e: "end_state (main lm all_valid_services
            [(all_valid_services, [ObstacleMsg \<lparr>px = Fin 1, py = Fin 2, theta = Fin 0\<rparr>, CmdMsg 1]),
             (all_valid_services, [])]) = Some s'" by simp
    from n obtain r where r: "rrts_calls s' = [r]"
      by (cases "rrts_calls s'") simp_all
    with C10_obstacle_region_fixed [OF e]
    have c: "map Obstacles (rrts_calls s') = [[zero_obstacle_region]]" by simp
    from e o c show ?thesis by (intro exI [of _ s'] conjI)
  qed
qed

end
